theory Spec2Isabelle
  imports Main "HOL-Library.Word"
begin

unbundle bit_operations_syntax

section \<open>Values, errors and the request\<close>

text \<open>
  The service is one Express handler, \<^verbatim>\<open>app.post('/merge', ...)\<close> in \<^verbatim>\<open>index.js\<close>.
  Its collaborators (axios, the write stream, fluent-ffmpeg, the clock, the random
  number generator) are libraries outside the repository: they are the fields of the
  record \<open>env\<close> below and every theorem holds for all of them.

  A JavaScript value as \<^verbatim>\<open>express.json()\<close> delivers it and as \<^verbatim>\<open>res.json\<close>
  sends it. Numbers are whole, or a count of hundredths (what
  \<^verbatim>\<open>parseFloat(x.toFixed(2))\<close> yields).
\<close>

datatype number = Whole int | Hundredths int

datatype jsval =
    JUndefined
  | JNull
  | JBool bool
  | JNum number
  | JStr string
  | JArr "jsval list"
  | JObj "(string \<times> jsval) list"

text \<open>\<^verbatim>\<open>!x\<close> is \<open>\<not> truthy x\<close>: undefined, null, false, 0 and the empty string are falsy.\<close>

fun truthy :: "jsval \<Rightarrow> bool" where
  "truthy JUndefined = False"
| "truthy JNull = False"
| "truthy (JBool b) = b"
| "truthy (JNum (Whole n)) = (n \<noteq> 0)"
| "truthy (JNum (Hundredths n)) = (n \<noteq> 0)"
| "truthy (JStr s) = (s \<noteq> [])"
| "truthy (JArr xs) = True"
| "truthy (JObj kvs) = True"

text \<open>
  \<^verbatim>\<open>req.body\<close> is the parsed object; \<^verbatim>\<open>const { videoUrl, audioUrl } = req.body\<close>
  reads two properties, \<^verbatim>\<open>undefined\<close> when the property is absent.
\<close>

type_synonym js_object = "string \<Rightarrow> jsval option"

definition property :: "js_object \<Rightarrow> string \<Rightarrow> jsval" where
  "property obj k = (case obj k of None \<Rightarrow> JUndefined | Some v \<Rightarrow> v)"

definition videoUrl :: "js_object \<Rightarrow> jsval" where
  "videoUrl body = property body ''videoUrl''"

definition audioUrl :: "js_object \<Rightarrow> jsval" where
  "audioUrl body = property body ''audioUrl''"

text \<open>A thrown \<^verbatim>\<open>Error\<close>: the handler reads its \<^verbatim>\<open>message\<close> and its \<^verbatim>\<open>stack\<close>.\<close>

record js_error =
  message :: string
  stack :: string

type_synonym path = string
type_synonym bytes = "8 word list"

record axios_config =
  responseType :: string
  timeout :: nat
  maxContentLength :: nat

record response =
  status :: nat
  body :: jsval

section \<open>The collaborators\<close>

text \<open>
  With \<^verbatim>\<open>responseType: 'stream'\<close> the promise of \<^verbatim>\<open>axios.get\<close> settles at the
  response headers: it rejects, or it resolves with a stream whose body is still to
  come. The body arrives whole, or the stream emits an error after a prefix of it (the
  size ceiling exceeded while streaming, a timeout in the middle of the body, an
  aborted socket).
\<close>

datatype body_stream = Complete bytes | Broken bytes js_error

text \<open>
  What the writer of \<^verbatim>\<open>fs.createWriteStream(path)\<close> does with the bytes piped into
  it: it writes them all, or it emits \<^verbatim>\<open>'error'\<close> (the file then holds what was
  written so far, if it was created at all).
\<close>

datatype write_outcome = Finish | WriteError js_error "bytes option"

text \<open>
  fluent-ffmpeg ends with \<^verbatim>\<open>'end'\<close> or with \<^verbatim>\<open>'error'\<close>; either way the tool may or
  may not have written the output path.
\<close>

datatype ffmpeg_outcome = End "bytes option" | FfmpegError js_error "bytes option"

record env =
  axios_get :: "jsval \<Rightarrow> axios_config \<Rightarrow> js_error + body_stream"
  write_stream :: "path \<Rightarrow> bytes \<Rightarrow> write_outcome"
  ffmpeg_run :: "path list \<Rightarrow> string list \<Rightarrow> path \<Rightarrow> (path \<Rightarrow> bytes option) \<Rightarrow> ffmpeg_outcome"
  read_error :: "path \<Rightarrow> js_error option"
  unlink_error :: "path \<Rightarrow> js_error option"
  date_now_start :: int
  date_now_stamp :: int
  date_now_end :: int
  random_base36 :: string
  capture_stack :: "string \<Rightarrow> string"
  to_hundredths :: "int \<Rightarrow> int list \<Rightarrow> int"

text \<open>
  \<open>random_base36\<close> is \<^verbatim>\<open>Math.random().toString(36)\<close>; \<open>to_hundredths e n ds\<close> is the
  number of hundredths that \<^verbatim>\<open>toFixed(2)\<close> prints for \<open>n\<close> divided, in floating
  point, by each of \<open>ds\<close> in turn; \<open>capture_stack e msg\<close> is the stack trace of
  \<^verbatim>\<open>new Error(msg)\<close>.
\<close>

definition new_Error :: "env \<Rightarrow> string \<Rightarrow> js_error" where
  "new_Error e msg = \<lparr>message = msg, stack = capture_stack e msg\<rparr>"

section \<open>The world: files and the calls made\<close>

datatype event =
    AxiosGet jsval axios_config
  | CreateWriteStream path
  | WriterFinish path
  | FfmpegRun "path list" "string list" path
  | ReadFileSync path
  | UnlinkSync path

record world =
  files :: "path \<Rightarrow> bytes option"
  trace :: "event list"

definition log_event :: "event \<Rightarrow> world \<Rightarrow> world" where
  "log_event ev w = w\<lparr>trace := trace w @ [ev]\<rparr>"

definition existsSync :: "world \<Rightarrow> path \<Rightarrow> bool" where
  "existsSync w p = (files w p \<noteq> None)"

definition enoent :: "env \<Rightarrow> string \<Rightarrow> path \<Rightarrow> js_error" where
  "enoent e syscall p =
     new_Error e (''ENOENT: no such file or directory, '' @ syscall @ '' '' @ [CHR 39] @ p @ [CHR 39])"

text \<open>\<^verbatim>\<open>fs.statSync(p).size\<close>\<close>

definition statSync_size :: "env \<Rightarrow> world \<Rightarrow> path \<Rightarrow> js_error + nat" where
  "statSync_size e w p = (case files w p of None \<Rightarrow> Inl (enoent e ''stat'' p) | Some b \<Rightarrow> Inr (length b))"

section \<open>Temporary paths\<close>

definition digit_char :: "nat \<Rightarrow> char" where
  "digit_char n = ''0123456789'' ! n"

fun show_nat :: "nat \<Rightarrow> string" where
  "show_nat n = (if n < 10 then [digit_char n] else show_nat (n div 10) @ [digit_char (n mod 10)])"

definition show_int :: "int \<Rightarrow> string" where
  "show_int i = (if i < 0 then CHR ''-'' # show_nat (nat (- i)) else show_nat (nat i))"

text \<open>
  \<^verbatim>\<open>path.join(tempDir, name)\<close>: for a name that holds no separator and is not a dot
  segment, as the three names below, joining is concatenation.
\<close>

definition path_join :: "path \<Rightarrow> string \<Rightarrow> path" where
  "path_join dir name = dir @ ''/'' @ name"

definition tempDir :: path where
  "tempDir = ''/tmp''"

text \<open>\<^verbatim>\<open>Math.random().toString(36).substring(7)\<close>\<close>

definition randomId :: "env \<Rightarrow> string" where
  "randomId e = drop 7 (random_base36 e)"

definition videoPath :: "env \<Rightarrow> path" where
  "videoPath e = path_join tempDir (''video_'' @ show_int (date_now_stamp e) @ ''_'' @ randomId e @ ''.mp4'')"

definition audioPath :: "env \<Rightarrow> path" where
  "audioPath e = path_join tempDir (''audio_'' @ show_int (date_now_stamp e) @ ''_'' @ randomId e @ ''.mp3'')"

definition outputPath :: "env \<Rightarrow> path" where
  "outputPath e = path_join tempDir (''output_'' @ show_int (date_now_stamp e) @ ''_'' @ randomId e @ ''.mp4'')"

section \<open>Base64\<close>

text \<open>
  \<^verbatim>\<open>mergedVideo.toString('base64')\<close> is the runtime's encoder: the standard alphabet
  of RFC 4648 with \<open>=\<close> padding. Three octets make four sextets; the decoder is the
  inverse reading, \<open>None\<close> on a text that is not base64.
\<close>

definition b64_alphabet :: string where
  "b64_alphabet = ''ABCDEFGHIJKLMNOPQRSTUVWXYZabcdefghijklmnopqrstuvwxyz0123456789+/''"

definition b64_char :: "nat \<Rightarrow> char" where
  "b64_char i = b64_alphabet ! i"

fun index_of :: "'a \<Rightarrow> 'a list \<Rightarrow> nat option" where
  "index_of x [] = None"
| "index_of x (y # ys) = (if x = y then Some 0 else map_option Suc (index_of x ys))"

definition b64_index :: "char \<Rightarrow> nat option" where
  "b64_index c = index_of c b64_alphabet"

definition sextet0 :: "8 word \<Rightarrow> nat" where
  "sextet0 a = unat a div 4"

definition sextet1 :: "8 word \<Rightarrow> 8 word \<Rightarrow> nat" where
  "sextet1 a b = unat a mod 4 * 16 + unat b div 16"

definition sextet2 :: "8 word \<Rightarrow> 8 word \<Rightarrow> nat" where
  "sextet2 b c = unat b mod 16 * 4 + unat c div 64"

definition sextet3 :: "8 word \<Rightarrow> nat" where
  "sextet3 c = unat c mod 64"

definition octet0 :: "nat \<Rightarrow> nat \<Rightarrow> 8 word" where
  "octet0 s0 s1 = of_nat (s0 * 4 + s1 div 16)"

definition octet1 :: "nat \<Rightarrow> nat \<Rightarrow> 8 word" where
  "octet1 s1 s2 = of_nat (s1 mod 16 * 16 + s2 div 4)"

definition octet2 :: "nat \<Rightarrow> nat \<Rightarrow> 8 word" where
  "octet2 s2 s3 = of_nat (s2 mod 4 * 64 + s3)"

fun base64_encode :: "bytes \<Rightarrow> string" where
  "base64_encode [] = []"
| "base64_encode [a] =
     [b64_char (sextet0 a), b64_char (sextet1 a 0), CHR ''='', CHR ''='']"
| "base64_encode [a, b] =
     [b64_char (sextet0 a), b64_char (sextet1 a b), b64_char (sextet2 b 0), CHR ''='']"
| "base64_encode (a # b # c # rest) =
     [b64_char (sextet0 a), b64_char (sextet1 a b), b64_char (sextet2 b c), b64_char (sextet3 c)]
     @ base64_encode rest"

fun base64_decode :: "string \<Rightarrow> bytes option" where
  "base64_decode [] = Some []"
| "base64_decode (c0 # c1 # c2 # c3 # rest) =
     (case (b64_index c0, b64_index c1) of
        (Some s0, Some s1) \<Rightarrow>
          (if rest = [] \<and> c2 = CHR ''='' \<and> c3 = CHR ''=''
           then Some [octet0 s0 s1]
           else (case b64_index c2 of
                   None \<Rightarrow> None
                 | Some s2 \<Rightarrow>
                     (if rest = [] \<and> c3 = CHR ''=''
                      then Some [octet0 s0 s1, octet1 s1 s2]
                      else (case b64_index c3 of
                              None \<Rightarrow> None
                            | Some s3 \<Rightarrow>
                                map_option
                                  (\<lambda>bs. octet0 s0 s1 # octet1 s1 s2 # octet2 s2 s3 # bs)
                                  (base64_decode rest)))))
      | _ \<Rightarrow> None)"
| "base64_decode _ = None"

section \<open>The download phase\<close>

definition video_config :: axios_config where
  "video_config = \<lparr>responseType = ''stream'', timeout = 60000, maxContentLength = 50 * 1024 * 1024\<rparr>"

definition audio_config :: axios_config where
  "audio_config = \<lparr>responseType = ''stream'', timeout = 30000, maxContentLength = 10 * 1024 * 1024\<rparr>"

text \<open>
  Lines 63 to 77 for the video and 82 to 96 for the audio are the same statements with
  the locator, the options and the path exchanged: \<^verbatim>\<open>await axios.get(url, cfg)\<close>,
  \<^verbatim>\<open>fs.createWriteStream(path)\<close>, \<^verbatim>\<open>pipe\<close>, the wait for the writer's
  \<^verbatim>\<open>'finish'\<close> or \<^verbatim>\<open>'error'\<close>, then \<^verbatim>\<open>fs.statSync(path).size\<close>.

  The result of an awaited step is \<open>Some (Inr v)\<close> when it resolves, \<open>Some (Inl err)\<close>
  when it rejects or throws, and \<open>None\<close> when it never settles. \<^verbatim>\<open>pipe\<close> ends the
  writer only when the source ends, and it does not forward an error of the source: on
  a broken stream the writer emits neither \<^verbatim>\<open>'finish'\<close> nor \<^verbatim>\<open>'error'\<close> (unless
  writing the prefix itself fails), so the promise the handler awaits never settles.
\<close>

definition pipe_to_file ::
  "env \<Rightarrow> path \<Rightarrow> body_stream \<Rightarrow> world \<Rightarrow> world \<times> (js_error + unit) option" where
  "pipe_to_file e p stream w =
     (let w1 = log_event (CreateWriteStream p) w in
      case stream of
        Complete data \<Rightarrow>
          (case write_stream e p data of
             WriteError err partial \<Rightarrow>
               (w1\<lparr>files := (case partial of None \<Rightarrow> files w1 | Some b \<Rightarrow> (files w1)(p \<mapsto> b))\<rparr>,
                Some (Inl err))
           | Finish \<Rightarrow>
               (log_event (WriterFinish p) (w1\<lparr>files := (files w1)(p \<mapsto> data)\<rparr>), Some (Inr ())))
      | Broken prefix sourceError \<Rightarrow>
          (case write_stream e p prefix of
             WriteError err partial \<Rightarrow>
               (w1\<lparr>files := (case partial of None \<Rightarrow> files w1 | Some b \<Rightarrow> (files w1)(p \<mapsto> b))\<rparr>,
                Some (Inl err))
           | Finish \<Rightarrow> (w1\<lparr>files := (files w1)(p \<mapsto> prefix)\<rparr>, None)))"

definition download ::
  "env \<Rightarrow> jsval \<Rightarrow> axios_config \<Rightarrow> path \<Rightarrow> world \<Rightarrow> world \<times> (js_error + nat) option" where
  "download e url cfg p w =
     (let w1 = log_event (AxiosGet url cfg) w in
      case axios_get e url cfg of
        Inl err \<Rightarrow> (w1, Some (Inl err))
      | Inr stream \<Rightarrow>
          (case pipe_to_file e p stream w1 of
             (w2, None) \<Rightarrow> (w2, None)
           | (w2, Some (Inl err)) \<Rightarrow> (w2, Some (Inl err))
           | (w2, Some (Inr u)) \<Rightarrow> (w2, Some (statSync_size e w2 p))))"

section \<open>The combine phase\<close>

definition outputOptions :: "string list" where
  "outputOptions =
     [''-c:v copy'', ''-c:a aac'', ''-b:a 192k'', ''-map 0:v:0'', ''-map 1:a:0'',
      ''-shortest'', ''-movflags +faststart'', ''-y'']"

text \<open>
  \<^verbatim>\<open>ffmpeg().input(videoPath).input(audioPath).outputOptions([...]).output(outputPath).run()\<close>
  inside a promise: \<^verbatim>\<open>'end'\<close> resolves, \<^verbatim>\<open>'error'\<close> rejects with
  \<^verbatim>\<open>new Error(`FFmpeg error: ${err.message}`)\<close>.
\<close>

definition write_output :: "path \<Rightarrow> bytes option \<Rightarrow> world \<Rightarrow> world" where
  "write_output p out w = w\<lparr>files := (case out of None \<Rightarrow> files w | Some b \<Rightarrow> (files w)(p \<mapsto> b))\<rparr>"

definition run_ffmpeg :: "env \<Rightarrow> path \<Rightarrow> path \<Rightarrow> path \<Rightarrow> world \<Rightarrow> world \<times> (js_error + unit)" where
  "run_ffmpeg e vp ap outp w =
     (let w1 = log_event (FfmpegRun [vp, ap] outputOptions outp) w in
      case ffmpeg_run e [vp, ap] outputOptions outp (files w1) of
        End out \<Rightarrow> (write_output outp out w1, Inr ())
      | FfmpegError err out \<Rightarrow>
          (write_output outp out w1, Inl (new_Error e (''FFmpeg error: '' @ message err))))"

section \<open>Reading and encoding the output\<close>

definition readFileSync :: "env \<Rightarrow> world \<Rightarrow> path \<Rightarrow> js_error + bytes" where
  "readFileSync e w p =
     (case files w p of
        None \<Rightarrow> Inl (enoent e ''open'' p)
      | Some b \<Rightarrow> (case read_error e p of Some err \<Rightarrow> Inl err | None \<Rightarrow> Inr b))"

record merge_result =
  base64Video :: string
  videoSize :: nat
  audioSize :: nat
  outputSize :: nat
  processingTime :: int

text \<open>Lines 137 to 151: the existence check, the size, the read, the encoding, the time.\<close>

definition read_output ::
  "env \<Rightarrow> int \<Rightarrow> nat \<Rightarrow> nat \<Rightarrow> path \<Rightarrow> world \<Rightarrow> world \<times> (js_error + merge_result)" where
  "read_output e startTime vsize asize outp w =
     (if \<not> existsSync w outp then (w, Inl (new_Error e ''Output file was not created''))
      else case statSync_size e w outp of
        Inl err \<Rightarrow> (w, Inl err)
      | Inr osize \<Rightarrow>
          (let w1 = log_event (ReadFileSync outp) w in
           case readFileSync e w1 outp of
             Inl err \<Rightarrow> (w1, Inl err)
           | Inr mergedVideo \<Rightarrow>
               (w1, Inr \<lparr>base64Video = base64_encode mergedVideo,
                         videoSize = vsize, audioSize = asize, outputSize = osize,
                         processingTime = to_hundredths e (date_now_end e - startTime) [1000]\<rparr>)))"

section \<open>The body of the try block\<close>

definition merge_try ::
  "env \<Rightarrow> js_object \<Rightarrow> int \<Rightarrow> world \<Rightarrow> world \<times> (js_error + merge_result) option" where
  "merge_try e reqBody startTime w =
     (case download e (videoUrl reqBody) video_config (videoPath e) w of
        (w1, None) \<Rightarrow> (w1, None)
      | (w1, Some (Inl err)) \<Rightarrow> (w1, Some (Inl err))
      | (w1, Some (Inr vsize)) \<Rightarrow>
          (case download e (audioUrl reqBody) audio_config (audioPath e) w1 of
             (w2, None) \<Rightarrow> (w2, None)
           | (w2, Some (Inl err)) \<Rightarrow> (w2, Some (Inl err))
           | (w2, Some (Inr asize)) \<Rightarrow>
               (case run_ffmpeg e (videoPath e) (audioPath e) (outputPath e) w2 of
                  (w3, Inl err) \<Rightarrow> (w3, Some (Inl err))
                | (w3, Inr u) \<Rightarrow>
                    (case read_output e startTime vsize asize (outputPath e) w3 of
                       (w4, r) \<Rightarrow> (w4, Some r)))))"

section \<open>Cleanup\<close>

text \<open>
  \<^verbatim>\<open>if (fs.existsSync(p)) fs.unlinkSync(p)\<close>; \<^verbatim>\<open>unlinkSync\<close> may throw. The three
  statements stand in one \<^verbatim>\<open>try\<close> whose \<^verbatim>\<open>catch\<close> only logs: the first throw
  leaves the later statements unexecuted.
\<close>

definition unlink_if_exists :: "env \<Rightarrow> path \<Rightarrow> world \<Rightarrow> world \<times> (js_error + unit)" where
  "unlink_if_exists e p w =
     (if existsSync w p then
        (let w1 = log_event (UnlinkSync p) w in
         case unlink_error e p of
           Some err \<Rightarrow> (w1, Inl err)
         | None \<Rightarrow> (w1\<lparr>files := (files w1)(p := None)\<rparr>, Inr ()))
      else (w, Inr ()))"

definition cleanup :: "env \<Rightarrow> path \<Rightarrow> path \<Rightarrow> path \<Rightarrow> world \<Rightarrow> world" where
  "cleanup e vp ap outp w =
     (case unlink_if_exists e vp w of
        (w1, Inl cleanupError) \<Rightarrow> w1
      | (w1, Inr _) \<Rightarrow>
          (case unlink_if_exists e ap w1 of
             (w2, Inl cleanupError) \<Rightarrow> w2
           | (w2, Inr _) \<Rightarrow> fst (unlink_if_exists e outp w2)))"

text \<open>
  The catch block guards each deletion with the path itself,
  \<^verbatim>\<open>if (videoPath && fs.existsSync(videoPath))\<close>: a path that is still the empty or
  undefined value is skipped.
\<close>

definition unlink_if_set :: "env \<Rightarrow> path \<Rightarrow> world \<Rightarrow> world \<times> (js_error + unit)" where
  "unlink_if_set e p w = (if truthy (JStr p) then unlink_if_exists e p w else (w, Inr ()))"

definition cleanup_on_error :: "env \<Rightarrow> path \<Rightarrow> path \<Rightarrow> path \<Rightarrow> world \<Rightarrow> world" where
  "cleanup_on_error e vp ap outp w =
     (case unlink_if_set e vp w of
        (w1, Inl cleanupError) \<Rightarrow> w1
      | (w1, Inr _) \<Rightarrow>
          (case unlink_if_set e ap w1 of
             (w2, Inl cleanupError) \<Rightarrow> w2
           | (w2, Inr _) \<Rightarrow> fst (unlink_if_set e outp w2)))"

section \<open>Responses and the handler\<close>

definition two_digits :: "nat \<Rightarrow> string" where
  "two_digits n = [digit_char (n div 10 mod 10), digit_char (n mod 10)]"

text \<open>The text \<^verbatim>\<open>toFixed(2)\<close> prints for a number of hundredths.\<close>

definition fixed2_text :: "int \<Rightarrow> string" where
  "fixed2_text k =
     (if k < 0 then ''-'' else []) @ show_nat (nat \<bar>k\<bar> div 100) @ ''.'' @ two_digits (nat \<bar>k\<bar> mod 100)"

definition missing_fields_response :: response where
  "missing_fields_response =
     \<lparr>status = 400,
      body = JObj [(''error'', JStr ''Missing required fields''),
                   (''required'', JArr [JStr ''videoUrl'', JStr ''audioUrl''])]\<rparr>"

definition success_response :: "env \<Rightarrow> merge_result \<Rightarrow> response" where
  "success_response e r =
     \<lparr>status = 200,
      body = JObj
        [(''success'', JBool True),
         (''base64'', JStr (base64Video r)),
         (''stats'', JObj
            [(''inputVideoSize'', JNum (Whole (int (videoSize r)))),
             (''inputAudioSize'', JNum (Whole (int (audioSize r)))),
             (''outputSize'', JNum (Whole (int (outputSize r)))),
             (''processingTime'', JNum (Hundredths (processingTime r))),
             (''outputSizeMB'', JStr (fixed2_text (to_hundredths e (int (outputSize r)) [1024, 1024])))]),
         (''message'', JStr ''Video and audio merged successfully'')]\<rparr>"

definition error_response :: "js_error \<Rightarrow> response" where
  "error_response err =
     \<lparr>status = 500,
      body = JObj [(''success'', JBool False), (''error'', JStr (message err)),
                   (''details'', JStr (stack err))]\<rparr>"

text \<open>
  \<^verbatim>\<open>app.post('/merge', async (req, res) => ...)\<close>: the world after the handler and the
  response it sent, \<open>None\<close> when it never sends one (the try block waits for ever:
  neither \<^verbatim>\<open>res.json\<close> nor the catch block is reached, and nothing is cleaned up).
\<close>

definition merge_handler :: "env \<Rightarrow> js_object \<Rightarrow> world \<Rightarrow> world \<times> response option" where
  "merge_handler e reqBody w =
     (if \<not> truthy (videoUrl reqBody) \<or> \<not> truthy (audioUrl reqBody)
      then (w, Some missing_fields_response)
      else
        (let startTime = date_now_start e in
         case merge_try e reqBody startTime w of
           (w1, None) \<Rightarrow> (w1, None)
         | (w1, Some (Inr r)) \<Rightarrow>
             (cleanup e (videoPath e) (audioPath e) (outputPath e) w1, Some (success_response e r))
         | (w1, Some (Inl err)) \<Rightarrow>
             (cleanup_on_error e (videoPath e) (audioPath e) (outputPath e) w1,
              Some (error_response err))))"

text \<open>A request arriving with the given files on storage and no call made yet.\<close>

definition initial_world :: "(path \<Rightarrow> bytes option) \<Rightarrow> world" where
  "initial_world fs = \<lparr>files = fs, trace = []\<rparr>"

section \<open>Notions used to state the properties\<close>

text \<open>
  The three ways a download can end, read off the collaborators: it is fetched (the
  body arrived whole and the writer wrote it), it ends with an error (the rejection of
  \<^verbatim>\<open>axios.get\<close> or the writer's \<^verbatim>\<open>'error'\<close> event), or it stalls (the stream broke
  after the headers).
\<close>

definition fetched_body :: "env \<Rightarrow> jsval \<Rightarrow> axios_config \<Rightarrow> path \<Rightarrow> bytes option" where
  "fetched_body e url cfg p =
     (case axios_get e url cfg of
        Inl err \<Rightarrow> None
      | Inr stream \<Rightarrow>
          (case stream of
             Complete data \<Rightarrow>
               (case write_stream e p data of Finish \<Rightarrow> Some data | WriteError err partial \<Rightarrow> None)
           | Broken prefix sourceError \<Rightarrow> None))"

definition fetched :: "env \<Rightarrow> jsval \<Rightarrow> axios_config \<Rightarrow> path \<Rightarrow> bool" where
  "fetched e url cfg p = (fetched_body e url cfg p \<noteq> None)"

definition download_error :: "env \<Rightarrow> jsval \<Rightarrow> axios_config \<Rightarrow> path \<Rightarrow> js_error option" where
  "download_error e url cfg p =
     (case axios_get e url cfg of
        Inl err \<Rightarrow> Some err
      | Inr stream \<Rightarrow>
          (case stream of
             Complete data \<Rightarrow>
               (case write_stream e p data of Finish \<Rightarrow> None | WriteError err partial \<Rightarrow> Some err)
           | Broken prefix sourceError \<Rightarrow>
               (case write_stream e p prefix of Finish \<Rightarrow> None | WriteError err partial \<Rightarrow> Some err)))"

definition stalled :: "env \<Rightarrow> jsval \<Rightarrow> axios_config \<Rightarrow> path \<Rightarrow> bool" where
  "stalled e url cfg p =
     (case axios_get e url cfg of
        Inl err \<Rightarrow> False
      | Inr stream \<Rightarrow>
          (case stream of
             Complete data \<Rightarrow> False
           | Broken prefix sourceError \<Rightarrow> write_stream e p prefix = Finish))"

text \<open>A request stalls when its video download stalls, or its audio download after the video.\<close>

definition request_stalls :: "env \<Rightarrow> js_object \<Rightarrow> bool" where
  "request_stalls e reqBody =
     (stalled e (videoUrl reqBody) video_config (videoPath e)
      \<or> (fetched e (videoUrl reqBody) video_config (videoPath e)
         \<and> stalled e (audioUrl reqBody) audio_config (audioPath e)))"

definition download_events :: "env \<Rightarrow> jsval \<Rightarrow> axios_config \<Rightarrow> path \<Rightarrow> event list" where
  "download_events e url cfg p =
     AxiosGet url cfg #
       (case axios_get e url cfg of
          Inl err \<Rightarrow> []
        | Inr stream \<Rightarrow>
            CreateWriteStream p #
              (case stream of
                 Complete data \<Rightarrow>
                   (case write_stream e p data of Finish \<Rightarrow> [WriterFinish p] | WriteError err partial \<Rightarrow> [])
               | Broken prefix sourceError \<Rightarrow> []))"

definition after_video :: "env \<Rightarrow> js_object \<Rightarrow> world \<Rightarrow> world" where
  "after_video e reqBody w = fst (download e (videoUrl reqBody) video_config (videoPath e) w)"

definition after_downloads :: "env \<Rightarrow> js_object \<Rightarrow> world \<Rightarrow> world" where
  "after_downloads e reqBody w =
     fst (download e (audioUrl reqBody) audio_config (audioPath e) (after_video e reqBody w))"

definition combine :: "env \<Rightarrow> js_object \<Rightarrow> world \<Rightarrow> world \<times> (js_error + unit)" where
  "combine e reqBody w =
     run_ffmpeg e (videoPath e) (audioPath e) (outputPath e) (after_downloads e reqBody w)"

definition after_combine :: "env \<Rightarrow> js_object \<Rightarrow> world \<Rightarrow> world" where
  "after_combine e reqBody w = fst (combine e reqBody w)"

text \<open>The calls in a trace, by collaborator.\<close>

fun is_ffmpeg_run :: "event \<Rightarrow> bool" where
  "is_ffmpeg_run (FfmpegRun ins opts outp) = True"
| "is_ffmpeg_run ev = False"

fun is_unlink :: "event \<Rightarrow> bool" where
  "is_unlink (UnlinkSync p) = True"
| "is_unlink ev = False"

fun axios_call :: "event \<Rightarrow> (jsval \<times> axios_config) option" where
  "axios_call (AxiosGet url cfg) = Some (url, cfg)"
| "axios_call ev = None"

definition axios_calls :: "event list \<Rightarrow> (jsval \<times> axios_config) list" where
  "axios_calls t = List.map_filter axios_call t"

text \<open>\<open>precedes a b t\<close>: in \<open>t\<close>, no \<open>b\<close> comes before the first \<open>a\<close>.\<close>

fun precedes :: "event \<Rightarrow> event \<Rightarrow> event list \<Rightarrow> bool" where
  "precedes a b [] = True"
| "precedes a b (x # xs) = (if x = a then True else if x = b then False else precedes a b xs)"

text \<open>Reading a response body.\<close>

definition get_member :: "jsval \<Rightarrow> string \<Rightarrow> jsval" where
  "get_member v k =
     (case v of
        JObj kvs \<Rightarrow> (case map_of kvs k of None \<Rightarrow> JUndefined | Some x \<Rightarrow> x)
      | _ \<Rightarrow> JUndefined)"

definition keys_of :: "jsval \<Rightarrow> string list" where
  "keys_of v = (case v of JObj kvs \<Rightarrow> map fst kvs | _ \<Rightarrow> [])"

fun is_JStr :: "jsval \<Rightarrow> bool" where
  "is_JStr (JStr s) = True"
| "is_JStr v = False"

fun is_JNum :: "jsval \<Rightarrow> bool" where
  "is_JNum (JNum n) = True"
| "is_JNum v = False"

text \<open>A sample network, tool and request, to evaluate the handler on.\<close>

definition not_found :: js_error where
  "not_found = \<lparr>message = ''Request failed with status code 404'',
                 stack = ''AxiosError: Request failed with status code 404''\<rparr>"

definition demo_env :: env where
  "demo_env =
     \<lparr>axios_get = (\<lambda>url cfg.
         if url = JStr ''https://host/a.mp4'' then Inr (Complete [0, 0, 1, 186])
         else if url = JStr ''https://host/b.mp3'' then Inr (Complete [73, 68, 51])
         else Inl not_found),
      write_stream = (\<lambda>p data. Finish),
      ffmpeg_run = (\<lambda>ins opts outp fs. End (Some [77, 97, 110, 33])),
      read_error = (\<lambda>p. None),
      unlink_error = (\<lambda>p. None),
      date_now_start = 1700000000000,
      date_now_stamp = 1700000000002,
      date_now_end = 1700000001234,
      random_base36 = ''0.4fzyo82mvyr'',
      capture_stack = (\<lambda>msg. ''Error: '' @ msg),
      to_hundredths = (\<lambda>n ds. (200 * n + prod_list ds) div (2 * prod_list ds))\<rparr>"

definition demo_request :: js_object where
  "demo_request = [''videoUrl'' \<mapsto> JStr ''https://host/a.mp4'', ''audioUrl'' \<mapsto> JStr ''https://host/b.mp3'']"



text \<open>The same network with a tool that reports success and writes nothing.\<close>

definition silent_env :: env where
  "silent_env = demo_env\<lparr>ffmpeg_run := (\<lambda>ins opts outp fs. End None)\<rparr>"

text \<open>The same network with a video whose body breaks off after two bytes.\<close>

definition aborted :: js_error where
  "aborted = \<lparr>message = ''aborted'', stack = ''Error: aborted''\<rparr>"

definition broken_env :: env where
  "broken_env =
     demo_env\<lparr>axios_get := (\<lambda>url cfg.
       if url = JStr ''https://host/a.mp4'' then Inr (Broken [0, 0] aborted)
       else axios_get demo_env url cfg)\<rparr>"

text \<open>The three shapes of a response.\<close>

definition validation_shape :: "response \<Rightarrow> bool" where
  "validation_shape r =
     (status r = 400 \<and> keys_of (body r) = [''error'', ''required'']
      \<and> is_JStr (get_member (body r) ''error''))"

definition success_shape :: "response \<Rightarrow> bool" where
  "success_shape r =
     (status r = 200
      \<and> keys_of (body r) = [''success'', ''base64'', ''stats'', ''message'']
      \<and> get_member (body r) ''success'' = JBool True
      \<and> is_JStr (get_member (body r) ''base64'')
      \<and> keys_of (get_member (body r) ''stats'') =
            [''inputVideoSize'', ''inputAudioSize'', ''outputSize'', ''processingTime'', ''outputSizeMB'']
      \<and> is_JNum (get_member (get_member (body r) ''stats'') ''inputVideoSize'')
      \<and> is_JNum (get_member (get_member (body r) ''stats'') ''inputAudioSize'')
      \<and> is_JNum (get_member (get_member (body r) ''stats'') ''outputSize'')
      \<and> is_JNum (get_member (get_member (body r) ''stats'') ''processingTime'')
      \<and> is_JStr (get_member (get_member (body r) ''stats'') ''outputSizeMB'')
      \<and> is_JStr (get_member (body r) ''message''))"

definition failure_shape :: "response \<Rightarrow> bool" where
  "failure_shape r =
     (status r = 500
      \<and> keys_of (body r) = [''success'', ''error'', ''details'']
      \<and> get_member (body r) ''success'' = JBool False
      \<and> is_JStr (get_member (body r) ''error'')
      \<and> is_JStr (get_member (body r) ''details''))"

text \<open>A response option has a shape when there is a response and it has the shape.\<close>

fun has_shape :: "(response \<Rightarrow> bool) \<Rightarrow> response option \<Rightarrow> bool" where
  "has_shape shape None = False"
| "has_shape shape (Some r) = shape r"

text \<open>
  Every phase succeeds, read off the collaborators: both downloads are fetched, the tool
  run on the two downloaded files ends with \<^verbatim>\<open>'end'\<close>, the output path exists afterwards
  (the tool wrote it, or it was there before) and reading it does not fail.
\<close>

definition all_phases_succeed :: "env \<Rightarrow> js_object \<Rightarrow> world \<Rightarrow> bool" where
  "all_phases_succeed e reqBody w =
     (case fetched_body e (videoUrl reqBody) video_config (videoPath e) of
        None \<Rightarrow> False
      | Some vdata \<Rightarrow>
          (case fetched_body e (audioUrl reqBody) audio_config (audioPath e) of
             None \<Rightarrow> False
           | Some adata \<Rightarrow>
               (case ffmpeg_run e [videoPath e, audioPath e] outputOptions (outputPath e)
                       ((files w)(videoPath e \<mapsto> vdata, audioPath e \<mapsto> adata)) of
                  FfmpegError err out \<Rightarrow> False
                | End out \<Rightarrow>
                    (out \<noteq> None \<or> files w (outputPath e) \<noteq> None)
                    \<and> read_error e (outputPath e) = None)))"

section \<open>Facts about the temporary paths\<close>

lemma temp_paths_distinct:
  "videoPath e \<noteq> audioPath e" "videoPath e \<noteq> outputPath e" "audioPath e \<noteq> outputPath e"
  "audioPath e \<noteq> videoPath e" "outputPath e \<noteq> videoPath e" "outputPath e \<noteq> audioPath e"
  by (simp_all add: videoPath_def audioPath_def outputPath_def path_join_def tempDir_def)

section \<open>The ways a download ends\<close>

lemma download_cases:
  "fetched e url cfg p \<or> stalled e url cfg p \<or> (\<exists>err. download_error e url cfg p = Some err)"
  by (simp add: fetched_def fetched_body_def stalled_def download_error_def
      split: sum.splits body_stream.splits write_outcome.splits)

lemma stalled_exclusive:
  "stalled e url cfg p \<Longrightarrow> \<not> fetched e url cfg p \<and> download_error e url cfg p = None"
  by (simp add: fetched_def fetched_body_def stalled_def download_error_def
      split: sum.splits body_stream.splits write_outcome.splits)

lemma download_error_exclusive:
  "download_error e url cfg p = Some err \<Longrightarrow> \<not> fetched e url cfg p \<and> \<not> stalled e url cfg p"
  by (simp add: fetched_def fetched_body_def stalled_def download_error_def
      split: sum.splits body_stream.splits write_outcome.splits)

lemma fetched_bodyE:
  assumes "fetched e url cfg p"
  obtains data where "fetched_body e url cfg p = Some data"
    and "axios_get e url cfg = Inr (Complete data)" and "write_stream e p data = Finish"
  using assms
  by (auto simp add: fetched_def fetched_body_def
      split: sum.splits body_stream.splits write_outcome.splits)

section \<open>The phases of the try block\<close>

lemma download_trace:
  "trace (fst (download e url cfg p w)) = trace w @ download_events e url cfg p"
  by (simp add: download_def pipe_to_file_def download_events_def log_event_def Let_def
      split: sum.splits body_stream.splits write_outcome.splits)

lemma download_fails:
  "download_error e url cfg p = Some err \<Longrightarrow> snd (download e url cfg p w) = Some (Inl err)"
  by (simp add: download_def pipe_to_file_def download_error_def log_event_def Let_def
      split: sum.splits body_stream.splits write_outcome.splits)

lemma download_stalls:
  "stalled e url cfg p \<Longrightarrow> snd (download e url cfg p w) = None"
  by (simp add: download_def pipe_to_file_def stalled_def log_event_def Let_def
      split: sum.splits body_stream.splits write_outcome.splits)

lemma download_fetched:
  assumes "fetched_body e url cfg p = Some data"
  shows "download e url cfg p w =
     (log_event (WriterFinish p)
        ((log_event (CreateWriteStream p) (log_event (AxiosGet url cfg) w))
           \<lparr>files := (files w)(p \<mapsto> data)\<rparr>),
      Some (Inr (length data)))"
  using assms
  by (simp add: download_def pipe_to_file_def fetched_body_def log_event_def statSync_size_def
      Let_def split: sum.splits body_stream.splits write_outcome.splits)

lemma download_succeeds:
  "fetched e url cfg p \<Longrightarrow> \<exists>n. snd (download e url cfg p w) = Some (Inr n)"
  by (erule fetched_bodyE) (simp add: download_fetched)

lemma download_files:
  "fetched_body e url cfg p = Some data \<Longrightarrow>
   files (fst (download e url cfg p w)) = (files w)(p \<mapsto> data)"
  by (simp add: download_fetched log_event_def)

lemma run_ffmpeg_trace:
  "trace (fst (run_ffmpeg e vp ap outp w)) = trace w @ [FfmpegRun [vp, ap] outputOptions outp]"
  by (simp add: run_ffmpeg_def log_event_def write_output_def Let_def split: ffmpeg_outcome.splits)

lemma read_output_trace:
  "\<exists>reads. trace (fst (read_output e st vs as outp w)) = trace w @ reads
      \<and> set reads \<subseteq> {ReadFileSync outp}"
  by (simp add: read_output_def log_event_def Let_def split: sum.splits)

text \<open>The ways through the try block.\<close>

lemma merge_try_video_fails:
  assumes "download_error e (videoUrl b) video_config (videoPath e) = Some err"
  shows "merge_try e b st w = (after_video e b w, Some (Inl err))"
  using download_fails [OF assms, of w]
  by (cases "download e (videoUrl b) video_config (videoPath e) w")
    (simp add: merge_try_def after_video_def)

lemma merge_try_video_stalls:
  assumes "stalled e (videoUrl b) video_config (videoPath e)"
  shows "merge_try e b st w = (after_video e b w, None)"
  using download_stalls [OF assms, of w]
  by (cases "download e (videoUrl b) video_config (videoPath e) w")
    (simp add: merge_try_def after_video_def)

lemma merge_try_audio_fails:
  assumes "fetched e (videoUrl b) video_config (videoPath e)"
    and "download_error e (audioUrl b) audio_config (audioPath e) = Some err"
  shows "merge_try e b st w = (after_downloads e b w, Some (Inl err))"
proof -
  obtain w1 vs where v: "download e (videoUrl b) video_config (videoPath e) w = (w1, Some (Inr vs))"
    using download_succeeds [OF assms(1), of w]
    by (cases "download e (videoUrl b) video_config (videoPath e) w") auto
  obtain w2 where a: "download e (audioUrl b) audio_config (audioPath e) w1 = (w2, Some (Inl err))"
    using download_fails [OF assms(2), of w1]
    by (cases "download e (audioUrl b) audio_config (audioPath e) w1") auto
  from v a show ?thesis
    by (simp add: merge_try_def after_video_def after_downloads_def)
qed

lemma merge_try_audio_stalls:
  assumes "fetched e (videoUrl b) video_config (videoPath e)"
    and "stalled e (audioUrl b) audio_config (audioPath e)"
  shows "merge_try e b st w = (after_downloads e b w, None)"
proof -
  obtain w1 vs where v: "download e (videoUrl b) video_config (videoPath e) w = (w1, Some (Inr vs))"
    using download_succeeds [OF assms(1), of w]
    by (cases "download e (videoUrl b) video_config (videoPath e) w") auto
  obtain w2 where a: "download e (audioUrl b) audio_config (audioPath e) w1 = (w2, None)"
    using download_stalls [OF assms(2), of w1]
    by (cases "download e (audioUrl b) audio_config (audioPath e) w1") auto
  from v a show ?thesis
    by (simp add: merge_try_def after_video_def after_downloads_def)
qed

lemma merge_try_downloaded:
  assumes "fetched e (videoUrl b) video_config (videoPath e)"
    and "fetched e (audioUrl b) audio_config (audioPath e)"
  shows "\<exists>vs as. merge_try e b st w =
     (case combine e b w of
        (w3, Inl err) \<Rightarrow> (w3, Some (Inl err))
      | (w3, Inr u) \<Rightarrow>
          (fst (read_output e st vs as (outputPath e) w3),
           Some (snd (read_output e st vs as (outputPath e) w3))))"
proof -
  obtain w1 vs where v: "download e (videoUrl b) video_config (videoPath e) w = (w1, Some (Inr vs))"
    using download_succeeds [OF assms(1), of w]
    by (cases "download e (videoUrl b) video_config (videoPath e) w") auto
  obtain w2 as where a: "download e (audioUrl b) audio_config (audioPath e) w1 = (w2, Some (Inr as))"
    using download_succeeds [OF assms(2), of w1]
    by (cases "download e (audioUrl b) audio_config (audioPath e) w1") auto
  from v a have "merge_try e b st w =
     (case combine e b w of
        (w3, Inl err) \<Rightarrow> (w3, Some (Inl err))
      | (w3, Inr u) \<Rightarrow>
          (fst (read_output e st vs as (outputPath e) w3),
           Some (snd (read_output e st vs as (outputPath e) w3))))"
    by (simp add: merge_try_def after_video_def after_downloads_def combine_def
        split: prod.splits sum.splits)
  then show ?thesis by blast
qed

lemma merge_try_trace:
  "\<exists>reads. set reads \<subseteq> {ReadFileSync (outputPath e)} \<and>
     trace (fst (merge_try e b st w)) =
       trace w @ download_events e (videoUrl b) video_config (videoPath e) @
         (if fetched e (videoUrl b) video_config (videoPath e)
          then download_events e (audioUrl b) audio_config (audioPath e) @
            (if fetched e (audioUrl b) audio_config (audioPath e)
             then FfmpegRun [videoPath e, audioPath e] outputOptions (outputPath e) # reads
             else [])
          else [])"
proof (cases "fetched e (videoUrl b) video_config (videoPath e)")
  case False
  then have "trace (fst (merge_try e b st w)) = trace (after_video e b w)"
    using download_cases [of e "videoUrl b" video_config "videoPath e"]
    by (auto simp add: merge_try_video_fails merge_try_video_stalls)
  with False show ?thesis
    by (intro exI [of _ "[]"]) (simp add: after_video_def download_trace)
next
  case v: True
  show ?thesis
  proof (cases "fetched e (audioUrl b) audio_config (audioPath e)")
    case False
    then have "trace (fst (merge_try e b st w)) = trace (after_downloads e b w)"
      using download_cases [of e "audioUrl b" audio_config "audioPath e"] v
      by (auto simp add: merge_try_audio_fails merge_try_audio_stalls)
    with v False show ?thesis
      by (intro exI [of _ "[]"]) (simp add: after_video_def after_downloads_def download_trace)
  next
    case a: True
    have d: "trace (after_downloads e b w) =
        trace w @ download_events e (videoUrl b) video_config (videoPath e)
          @ download_events e (audioUrl b) audio_config (audioPath e)"
      by (simp add: after_downloads_def after_video_def download_trace)
    obtain vs as where m: "merge_try e b st w =
       (case combine e b w of
          (w3, Inl err) \<Rightarrow> (w3, Some (Inl err))
        | (w3, Inr u) \<Rightarrow>
            (fst (read_output e st vs as (outputPath e) w3),
             Some (snd (read_output e st vs as (outputPath e) w3))))"
      using merge_try_downloaded [OF v a] by blast
    obtain w3 r where c: "combine e b w = (w3, r)"
      by (cases "combine e b w")
    then have t3: "trace w3 = trace (after_downloads e b w)
        @ [FfmpegRun [videoPath e, audioPath e] outputOptions (outputPath e)]"
      using run_ffmpeg_trace [of e "videoPath e" "audioPath e" "outputPath e" "after_downloads e b w"]
      by (simp add: combine_def)
    show ?thesis
    proof (cases r)
      case (Inl err)
      with m c t3 d v a show ?thesis by (intro exI [of _ "[]"]) simp
    next
      case (Inr u)
      obtain reads where "trace (fst (read_output e st vs as (outputPath e) w3)) = trace w3 @ reads"
        and "set reads \<subseteq> {ReadFileSync (outputPath e)}"
        using read_output_trace by blast
      with Inr m c t3 d v a show ?thesis by (intro exI [of _ reads]) simp
    qed
  qed
qed

section \<open>The sample inputs, evaluated\<close>

lemmas model_defs =
  merge_handler_def merge_try_def download_def pipe_to_file_def run_ffmpeg_def write_output_def
  read_output_def readFileSync_def statSync_size_def existsSync_def log_event_def
  cleanup_def cleanup_on_error_def unlink_if_exists_def unlink_if_set_def
  success_response_def error_response_def missing_fields_response_def new_Error_def enoent_def
  videoUrl_def audioUrl_def property_def initial_world_def Let_def

lemma demo_videoPath: "videoPath demo_env = ''/tmp/video_1700000000002_82mvyr.mp4''"
  by (simp add: videoPath_def demo_env_def path_join_def tempDir_def show_int_def randomId_def
      digit_char_def)

lemma demo_audioPath: "audioPath demo_env = ''/tmp/audio_1700000000002_82mvyr.mp3''"
  by (simp add: audioPath_def demo_env_def path_join_def tempDir_def show_int_def randomId_def
      digit_char_def)

lemma demo_outputPath: "outputPath demo_env = ''/tmp/output_1700000000002_82mvyr.mp4''"
  by (simp add: outputPath_def demo_env_def path_join_def tempDir_def show_int_def randomId_def
      digit_char_def)

lemma demo_env_fields:
  "axios_get demo_env url cfg =
     (if url = JStr ''https://host/a.mp4'' then Inr (Complete [0, 0, 1, 186])
      else if url = JStr ''https://host/b.mp3'' then Inr (Complete [73, 68, 51])
      else Inl not_found)"
  "write_stream demo_env p data = Finish"
  "ffmpeg_run demo_env ins opts outp fs = End (Some [77, 97, 110, 33])"
  "read_error demo_env p = None"
  "unlink_error demo_env p = None"
  "date_now_start demo_env = 1700000000000"
  "date_now_end demo_env = 1700000001234"
  "capture_stack demo_env msg = ''Error: '' @ msg"
  "to_hundredths demo_env n ds = (200 * n + prod_list ds) div (2 * prod_list ds)"
  by (simp_all add: demo_env_def)

lemmas demo_defs = demo_env_fields demo_request_def demo_videoPath demo_audioPath demo_outputPath



lemma demo_request_valid: "truthy (videoUrl demo_request)" "truthy (audioUrl demo_request)"
  by (simp_all add: videoUrl_def audioUrl_def property_def demo_request_def)

section \<open>Facts about cleanup\<close>

lemma temp_paths_nonempty: "truthy (JStr (videoPath e))" "truthy (JStr (audioPath e))"
  "truthy (JStr (outputPath e))"
  by (simp_all add: videoPath_def audioPath_def outputPath_def path_join_def tempDir_def)



lemma cleanup_on_error_eq:
  "truthy (JStr vp) \<Longrightarrow> truthy (JStr ap) \<Longrightarrow> truthy (JStr outp) \<Longrightarrow>
   cleanup_on_error e vp ap outp w = cleanup e vp ap outp w"
  by (simp add: cleanup_on_error_def cleanup_def unlink_if_set_def)

lemma unlink_if_exists_trace:
  "\<exists>us. trace (fst (unlink_if_exists e p w)) = trace w @ us \<and> (\<forall>u \<in> set us. is_unlink u)"
proof (cases "existsSync w p")
  case True
  then have "trace (fst (unlink_if_exists e p w)) = trace w @ [UnlinkSync p]"
    by (simp add: unlink_if_exists_def log_event_def Let_def split: option.splits)
  then show ?thesis by (intro exI [of _ "[UnlinkSync p]"]) simp
next
  case False
  then show ?thesis by (intro exI [of _ "[]"]) (simp add: unlink_if_exists_def)
qed

lemma cleanup_trace:
  "\<exists>us. trace (cleanup e vp ap outp w) = trace w @ us \<and> (\<forall>u \<in> set us. is_unlink u)"
proof -
  obtain w1 r1 where 1: "unlink_if_exists e vp w = (w1, r1)"
    by (cases "unlink_if_exists e vp w")
  obtain us1 where u1: "trace w1 = trace w @ us1" "\<forall>u \<in> set us1. is_unlink u"
    using unlink_if_exists_trace [of e vp w] 1 by auto
  obtain w2 r2 where 2: "unlink_if_exists e ap w1 = (w2, r2)"
    by (cases "unlink_if_exists e ap w1")
  obtain us2 where u2: "trace w2 = trace w1 @ us2" "\<forall>u \<in> set us2. is_unlink u"
    using unlink_if_exists_trace [of e ap w1] 2 by auto
  obtain us3 where u3: "trace (fst (unlink_if_exists e outp w2)) = trace w2 @ us3"
    "\<forall>u \<in> set us3. is_unlink u"
    using unlink_if_exists_trace [of e outp w2] by auto
  show ?thesis
  proof (cases r1)
    case (Inl err)
    with 1 u1 show ?thesis by (intro exI [of _ us1]) (simp add: cleanup_def)
  next
    case r1: (Inr u)
    show ?thesis
    proof (cases r2)
      case (Inl err)
      with 1 2 r1 u1 u2 show ?thesis by (intro exI [of _ "us1 @ us2"]) (auto simp add: cleanup_def)
    next
      case (Inr u')
      with 1 2 r1 u1 u2 u3 show ?thesis
        by (intro exI [of _ "us1 @ us2 @ us3"]) (auto simp add: cleanup_def)
    qed
  qed
qed

section \<open>Facts about the handler\<close>

lemma merge_handler_invalid:
  "\<not> truthy (videoUrl b) \<or> \<not> truthy (audioUrl b) \<Longrightarrow>
   merge_handler e b w = (w, Some missing_fields_response)"
  by (simp add: merge_handler_def)

lemma merge_handler_valid:
  assumes "truthy (videoUrl b)" "truthy (audioUrl b)"
  shows "merge_handler e b w =
     (case snd (merge_try e b (date_now_start e) w) of
        None \<Rightarrow> (fst (merge_try e b (date_now_start e) w), None)
      | Some r \<Rightarrow>
          (cleanup e (videoPath e) (audioPath e) (outputPath e)
             (fst (merge_try e b (date_now_start e) w)),
           Some (case r of Inr x \<Rightarrow> success_response e x | Inl err \<Rightarrow> error_response err)))"
proof -
  obtain w1 r where m: "merge_try e b (date_now_start e) w = (w1, r)"
    by (cases "merge_try e b (date_now_start e) w")
  have c: "cleanup_on_error e (videoPath e) (audioPath e) (outputPath e) w1 =
      cleanup e (videoPath e) (audioPath e) (outputPath e) w1"
    by (rule cleanup_on_error_eq [OF temp_paths_nonempty])
  show ?thesis
  proof (cases r)
    case None
    with assms m show ?thesis by (simp add: merge_handler_def)
  next
    case (Some x)
    with assms m c show ?thesis by (cases x) (simp_all add: merge_handler_def)
  qed
qed

lemma merge_handler_stalls:
  assumes "truthy (videoUrl b)" "truthy (audioUrl b)"
    and "snd (merge_try e b (date_now_start e) w) = None"
  shows "merge_handler e b w = (fst (merge_try e b (date_now_start e) w), None)"
  using assms(3) by (simp add: merge_handler_valid [OF assms(1,2)])

lemma merge_handler_settles:
  assumes "truthy (videoUrl b)" "truthy (audioUrl b)"
    and "snd (merge_try e b (date_now_start e) w) = Some r"
  shows "merge_handler e b w =
     (cleanup e (videoPath e) (audioPath e) (outputPath e) (fst (merge_try e b (date_now_start e) w)),
      Some (case r of Inr x \<Rightarrow> success_response e x | Inl err \<Rightarrow> error_response err))"
  using assms(3) by (simp add: merge_handler_valid [OF assms(1,2)])

lemma merge_handler_trace:
  assumes "truthy (videoUrl b)" "truthy (audioUrl b)"
  shows "\<exists>us. trace (fst (merge_handler e b w)) = trace (fst (merge_try e b (date_now_start e) w)) @ us
     \<and> (\<forall>u \<in> set us. is_unlink u)"
proof (cases "snd (merge_try e b (date_now_start e) w)")
  case None
  then show ?thesis
    by (intro exI [of _ "[]"]) (simp add: merge_handler_stalls [OF assms])
next
  case (Some r)
  then show ?thesis
    using cleanup_trace by (simp add: merge_handler_settles [OF assms])
qed







section \<open>Base64: decoding inverts encoding\<close>

lemma index_of_nth: "distinct xs \<Longrightarrow> i < length xs \<Longrightarrow> index_of (xs ! i) xs = Some i"
proof (induction xs arbitrary: i)
  case Nil
  then show ?case by simp
next
  case (Cons x xs)
  show ?case
  proof (cases i)
    case 0
    then show ?thesis by simp
  next
    case (Suc j)
    with Cons.prems have "xs ! j \<in> set xs" "x \<notin> set xs" "distinct xs" "j < length xs"
      by auto
    with Cons.IH [of j] Suc show ?thesis by auto
  qed
qed

lemma b64_alphabet_distinct: "distinct b64_alphabet"
  by (simp add: b64_alphabet_def)

lemma b64_alphabet_length: "length b64_alphabet = 64"
  by (simp add: b64_alphabet_def)

lemma b64_index_char: "i < 64 \<Longrightarrow> b64_index (b64_char i) = Some i"
  by (simp add: b64_index_def b64_char_def index_of_nth b64_alphabet_distinct b64_alphabet_length)

lemma b64_pad_not_in_alphabet: "CHR ''='' \<notin> set b64_alphabet"
  by (simp add: b64_alphabet_def)

lemma b64_char_not_pad: "i < 64 \<Longrightarrow> b64_char i \<noteq> CHR ''=''"
proof -
  assume "i < 64"
  then have "b64_alphabet ! i \<in> set b64_alphabet"
    by (simp add: b64_alphabet_length)
  with b64_pad_not_in_alphabet show ?thesis
    unfolding b64_char_def by metis
qed

lemma byte_bound: "unat (a :: 8 word) < 256"
  using unsigned_less [of a] by simp

lemma sextet_bounds:
  "sextet0 a < 64" "sextet1 a b < 64" "sextet2 b c < 64" "sextet3 c < 64"
  using byte_bound [of a] byte_bound [of b] byte_bound [of c]
  by (simp_all add: sextet0_def sextet1_def sextet2_def sextet3_def)

lemma octet0_sextets: "octet0 (sextet0 a) (sextet1 a b) = a"
proof -
  have "unat a div 4 * 4 + (unat a mod 4 * 16 + unat b div 16) div 16 = unat a"
    using byte_bound [of b] by simp
  then show ?thesis
    by (simp only: octet0_def sextet0_def sextet1_def) simp
qed

lemma octet1_sextets: "octet1 (sextet1 a b) (sextet2 b c) = b"
proof -
  have "(unat a mod 4 * 16 + unat b div 16) mod 16 = unat b div 16"
    using byte_bound [of b] by (simp add: less_mult_imp_div_less)
  moreover have "(unat b mod 16 * 4 + unat c div 64) div 4 = unat b mod 16"
    using byte_bound [of c] by simp
  ultimately have "(unat a mod 4 * 16 + unat b div 16) mod 16 * 16
      + (unat b mod 16 * 4 + unat c div 64) div 4 = unat b"
    by simp
  then show ?thesis
    by (simp only: octet1_def sextet1_def sextet2_def) simp
qed

lemma octet2_sextets: "octet2 (sextet2 b c) (sextet3 c) = c"
proof -
  have "(unat b mod 16 * 4 + unat c div 64) mod 4 = unat c div 64"
    using byte_bound [of c] by (simp add: less_mult_imp_div_less)
  then have "(unat b mod 16 * 4 + unat c div 64) mod 4 * 64 + unat c mod 64 = unat c"
    by simp
  then show ?thesis
    by (simp only: octet2_def sextet2_def sextet3_def) simp
qed

lemma base64_roundtrip: "base64_decode (base64_encode bs) = Some bs"
proof (induction bs rule: base64_encode.induct)
  case 1
  show ?case by simp
next
  case (2 a)
  show ?case
    by (simp add: b64_index_char sextet_bounds octet0_sextets)
next
  case (3 a b)
  show ?case
    by (simp add: b64_index_char sextet_bounds b64_char_not_pad octet0_sextets octet1_sextets)
next
  case (4 a b c rest)
  then show ?case
    by (simp add: b64_index_char sextet_bounds b64_char_not_pad
        octet0_sextets octet1_sextets octet2_sextets)
qed

section \<open>The result of the try block\<close>

lemma read_output_missing:
  "\<not> existsSync w p \<Longrightarrow>
   read_output e st vs as p w = (w, Inl (new_Error e ''Output file was not created''))"
  by (simp add: read_output_def)

lemma read_output_ok:
  assumes "existsSync w p" and "read_error e p = None"
  shows "\<exists>out r. files w p = Some out \<and> snd (read_output e st vs as p w) = Inr r
     \<and> base64Video r = base64_encode out"
proof -
  from assms(1) obtain out where "files w p = Some out"
    by (auto simp add: existsSync_def)
  with assms show ?thesis
    by (simp add: read_output_def statSync_size_def readFileSync_def log_event_def Let_def)
qed

lemma read_output_unreadable:
  assumes "read_error e p = Some err"
  shows "\<exists>err'. snd (read_output e st vs as p w) = Inl err'"
  using assms
  by (simp add: read_output_def statSync_size_def readFileSync_def log_event_def Let_def
      split: option.splits)

lemma merge_try_combined:
  assumes "fetched e (videoUrl b) video_config (videoPath e)"
    and "fetched e (audioUrl b) audio_config (audioPath e)"
    and "snd (combine e b w) = Inr ()"
  shows "\<exists>vs as. merge_try e b st w =
     (fst (read_output e st vs as (outputPath e) (after_combine e b w)),
      Some (snd (read_output e st vs as (outputPath e) (after_combine e b w))))"
proof -
  obtain vs as where "merge_try e b st w =
     (case combine e b w of
        (w3, Inl err) \<Rightarrow> (w3, Some (Inl err))
      | (w3, Inr u) \<Rightarrow>
          (fst (read_output e st vs as (outputPath e) w3),
           Some (snd (read_output e st vs as (outputPath e) w3))))"
    using merge_try_downloaded [OF assms(1,2)] by blast
  with assms(3) have "merge_try e b st w =
     (fst (read_output e st vs as (outputPath e) (after_combine e b w)),
      Some (snd (read_output e st vs as (outputPath e) (after_combine e b w))))"
    by (cases "combine e b w") (simp add: after_combine_def)
  then show ?thesis by blast
qed

lemma merge_try_tool_fails:
  assumes "fetched e (videoUrl b) video_config (videoPath e)"
    and "fetched e (audioUrl b) audio_config (audioPath e)"
    and "snd (combine e b w) = Inl err"
  shows "merge_try e b st w = (after_combine e b w, Some (Inl err))"
proof -
  obtain vs as where "merge_try e b st w =
     (case combine e b w of
        (w3, Inl err) \<Rightarrow> (w3, Some (Inl err))
      | (w3, Inr u) \<Rightarrow>
          (fst (read_output e st vs as (outputPath e) w3),
           Some (snd (read_output e st vs as (outputPath e) w3))))"
    using merge_try_downloaded [OF assms(1,2)] by blast
  with assms(3) show ?thesis
    by (cases "combine e b w") (simp add: after_combine_def)
qed

text \<open>
  \<open>all_phases_succeed\<close> is read off the collaborators; on the code it says that the
  downloads are fetched, that the combine phase returns and that the output can be read.
\<close>

lemma after_downloads_files:
  assumes "fetched_body e (videoUrl b) video_config (videoPath e) = Some vdata"
    and "fetched_body e (audioUrl b) audio_config (audioPath e) = Some adata"
  shows "files (after_downloads e b w) = (files w)(videoPath e \<mapsto> vdata, audioPath e \<mapsto> adata)"
  using assms by (simp add: after_downloads_def after_video_def download_files)

lemma all_phases_succeed_iff:
  "all_phases_succeed e b w \<longleftrightarrow>
     fetched e (videoUrl b) video_config (videoPath e)
     \<and> fetched e (audioUrl b) audio_config (audioPath e)
     \<and> snd (combine e b w) = Inr ()
     \<and> existsSync (after_combine e b w) (outputPath e)
     \<and> read_error e (outputPath e) = None"
proof (cases "fetched_body e (videoUrl b) video_config (videoPath e)")
  case None
  then show ?thesis by (simp add: all_phases_succeed_def fetched_def)
next
  case v: (Some vdata)
  show ?thesis
  proof (cases "fetched_body e (audioUrl b) audio_config (audioPath e)")
    case None
    with v show ?thesis by (simp add: all_phases_succeed_def fetched_def)
  next
    case a: (Some adata)
    have f: "files (after_downloads e b w) = (files w)(videoPath e \<mapsto> vdata, audioPath e \<mapsto> adata)"
      by (rule after_downloads_files [OF v a])
    show ?thesis
    proof (cases "ffmpeg_run e [videoPath e, audioPath e] outputOptions (outputPath e)
        ((files w)(videoPath e \<mapsto> vdata, audioPath e \<mapsto> adata))")
      case (FfmpegError err out)
      with v a f show ?thesis
        by (simp add: all_phases_succeed_def fetched_def combine_def run_ffmpeg_def log_event_def
            Let_def)
    next
      case (End out)
      with v a f show ?thesis
        by (cases out)
          (simp_all add: all_phases_succeed_def fetched_def combine_def after_combine_def
            run_ffmpeg_def write_output_def existsSync_def log_event_def Let_def
            temp_paths_distinct)
    qed
  qed
qed

lemma merge_try_succeeds:
  assumes "all_phases_succeed e b w"
  shows "\<exists>out r. files (after_combine e b w) (outputPath e) = Some out
     \<and> snd (merge_try e b st w) = Some (Inr r) \<and> base64Video r = base64_encode out"
proof -
  from assms have v: "fetched e (videoUrl b) video_config (videoPath e)"
    and a: "fetched e (audioUrl b) audio_config (audioPath e)"
    and c: "snd (combine e b w) = Inr ()"
    and x: "existsSync (after_combine e b w) (outputPath e)"
    and r: "read_error e (outputPath e) = None"
    by (simp_all add: all_phases_succeed_iff)
  obtain vs as where
    "merge_try e b st w =
       (fst (read_output e st vs as (outputPath e) (after_combine e b w)),
        Some (snd (read_output e st vs as (outputPath e) (after_combine e b w))))"
    using merge_try_combined [OF v a c] by blast
  with read_output_ok [OF x r, of st vs as] show ?thesis by simp
qed

lemma merge_try_stalls:
  assumes "request_stalls e b"
  shows "snd (merge_try e b st w) = None"
  using assms
  by (auto simp add: request_stalls_def merge_try_video_stalls merge_try_audio_stalls)

lemma merge_try_fails:
  assumes "\<not> all_phases_succeed e b w" and "\<not> request_stalls e b"
  shows "\<exists>err. snd (merge_try e b st w) = Some (Inl err)"
proof (cases "fetched e (videoUrl b) video_config (videoPath e)")
  case False
  with assms(2) obtain err where "download_error e (videoUrl b) video_config (videoPath e) = Some err"
    using download_cases [of e "videoUrl b" video_config "videoPath e"]
    by (auto simp add: request_stalls_def)
  then show ?thesis by (simp add: merge_try_video_fails)
next
  case v: True
  show ?thesis
  proof (cases "fetched e (audioUrl b) audio_config (audioPath e)")
    case False
    with assms(2) v obtain err where
      "download_error e (audioUrl b) audio_config (audioPath e) = Some err"
      using download_cases [of e "audioUrl b" audio_config "audioPath e"]
      by (auto simp add: request_stalls_def)
    with v show ?thesis by (simp add: merge_try_audio_fails)
  next
    case a: True
    show ?thesis
    proof (cases "snd (combine e b w)")
      case (Inl err)
      then show ?thesis by (simp add: merge_try_tool_fails [OF v a])
    next
      case (Inr u)
      then have c: "snd (combine e b w) = Inr ()" by simp
      obtain vs as where m:
        "merge_try e b st w =
           (fst (read_output e st vs as (outputPath e) (after_combine e b w)),
            Some (snd (read_output e st vs as (outputPath e) (after_combine e b w))))"
        using merge_try_combined [OF v a c] by blast
      show ?thesis
      proof (cases "existsSync (after_combine e b w) (outputPath e)")
        case False
        with m show ?thesis by (simp add: read_output_missing)
      next
        case True
        with assms(1) v a c obtain err where "read_error e (outputPath e) = Some err"
          by (auto simp add: all_phases_succeed_iff)
        with m read_output_unreadable [of e "outputPath e" err st vs as "after_combine e b w"]
        show ?thesis by auto
      qed
    qed
  qed
qed

lemma success_response_shape:
  "success_shape (success_response e r)" "\<not> failure_shape (success_response e r)"
  "\<not> validation_shape (success_response e r)"
  by (simp_all add: success_shape_def failure_shape_def validation_shape_def success_response_def
      keys_of_def get_member_def)

lemma error_response_shape:
  "failure_shape (error_response err)" "\<not> success_shape (error_response err)"
  "\<not> validation_shape (error_response err)"
  by (simp_all add: success_shape_def failure_shape_def validation_shape_def error_response_def
      keys_of_def get_member_def)

lemma missing_fields_response_shape:
  "validation_shape missing_fields_response" "\<not> success_shape missing_fields_response"
  "\<not> failure_shape missing_fields_response"
  by (simp_all add: success_shape_def failure_shape_def validation_shape_def
      missing_fields_response_def keys_of_def get_member_def)

lemma demo_fetched_body:
  "fetched_body demo_env (videoUrl demo_request) video_config (videoPath demo_env)
     = Some [0, 0, 1, 186]"
  "fetched_body demo_env (audioUrl demo_request) audio_config (audioPath demo_env)
     = Some [73, 68, 51]"
  by (simp_all add: fetched_body_def demo_env_fields videoUrl_def audioUrl_def
      property_def demo_request_def)

lemma demo_fetched:
  "fetched demo_env (videoUrl demo_request) video_config (videoPath demo_env)"
  "fetched demo_env (audioUrl demo_request) audio_config (audioPath demo_env)"
  by (simp_all add: fetched_def demo_fetched_body)

section \<open>The calls a request makes\<close>

lemma download_events_fetched:
  "fetched e url cfg p \<Longrightarrow>
   download_events e url cfg p = [AxiosGet url cfg, CreateWriteStream p, WriterFinish p]"
  by (simp add: fetched_def fetched_body_def download_events_def
      split: sum.splits body_stream.splits write_outcome.splits)

lemma merge_handler_calls:
  assumes "truthy (videoUrl b)" and "truthy (audioUrl b)"
  shows "\<exists>reads us. set reads \<subseteq> {ReadFileSync (outputPath e)} \<and> (\<forall>u \<in> set us. is_unlink u) \<and>
     trace (fst (merge_handler e b (initial_world fs))) =
       download_events e (videoUrl b) video_config (videoPath e) @
         (if fetched e (videoUrl b) video_config (videoPath e)
          then download_events e (audioUrl b) audio_config (audioPath e) @
            (if fetched e (audioUrl b) audio_config (audioPath e)
             then FfmpegRun [videoPath e, audioPath e] outputOptions (outputPath e) # reads
             else [])
          else []) @ us"
proof -
  obtain reads where r: "set reads \<subseteq> {ReadFileSync (outputPath e)}"
    and t: "trace (fst (merge_try e b (date_now_start e) (initial_world fs))) =
       trace (initial_world fs) @ download_events e (videoUrl b) video_config (videoPath e) @
         (if fetched e (videoUrl b) video_config (videoPath e)
          then download_events e (audioUrl b) audio_config (audioPath e) @
            (if fetched e (audioUrl b) audio_config (audioPath e)
             then FfmpegRun [videoPath e, audioPath e] outputOptions (outputPath e) # reads
             else [])
          else [])"
    using merge_try_trace [of e b "date_now_start e" "initial_world fs"] by blast
  obtain us where u: "\<forall>u \<in> set us. is_unlink u"
    and h: "trace (fst (merge_handler e b (initial_world fs))) =
       trace (fst (merge_try e b (date_now_start e) (initial_world fs))) @ us"
    using merge_handler_trace [OF assms, of e "initial_world fs"] by blast
  have "trace (initial_world fs) = []"
    by (simp add: initial_world_def)
  with r u t h show ?thesis
    by (intro exI [of _ reads] exI [of _ us]) simp
qed

lemma unlinks_no_ffmpeg: "\<forall>u \<in> set us. is_unlink u \<Longrightarrow> filter is_ffmpeg_run us = []"
proof (induction us)
  case Nil
  show ?case by simp
next
  case (Cons u us)
  then show ?case by (cases u) simp_all
qed

lemma unlinks_no_axios: "\<forall>u \<in> set us. is_unlink u \<Longrightarrow> axios_calls us = []"
proof (induction us)
  case Nil
  show ?case by (simp add: axios_calls_def map_filter_def)
next
  case (Cons u us)
  then show ?case by (cases u) (simp_all add: axios_calls_def map_filter_def)
qed

lemma reads_no_ffmpeg: "set reads \<subseteq> {ReadFileSync p} \<Longrightarrow> filter is_ffmpeg_run reads = []"
proof (induction reads)
  case Nil
  show ?case by simp
next
  case (Cons r reads)
  then show ?case by simp
qed

lemma reads_no_axios: "set reads \<subseteq> {ReadFileSync p} \<Longrightarrow> axios_calls reads = []"
proof (induction reads)
  case Nil
  show ?case by (simp add: axios_calls_def map_filter_def)
next
  case (Cons r reads)
  then show ?case by (simp add: axios_calls_def map_filter_def)
qed

lemma download_events_no_ffmpeg: "filter is_ffmpeg_run (download_events e url cfg p) = []"
  by (simp add: download_events_def split: sum.splits body_stream.splits write_outcome.splits)

lemma download_events_no_unlink: "filter is_unlink (download_events e url cfg p) = []"
  by (simp add: download_events_def split: sum.splits body_stream.splits write_outcome.splits)

lemma download_events_axios: "axios_calls (download_events e url cfg p) = [(url, cfg)]"
  by (simp add: download_events_def axios_calls_def map_filter_def
      split: sum.splits body_stream.splits write_outcome.splits)

lemma axios_calls_append: "axios_calls (xs @ ys) = axios_calls xs @ axios_calls ys"
  by (simp add: axios_calls_def map_filter_def)

lemma axios_calls_ffmpeg: "axios_calls (FfmpegRun ins opts outp # xs) = axios_calls xs"
  by (simp add: axios_calls_def map_filter_def)

lemma precedes_absent: "ev \<notin> set t \<Longrightarrow> precedes a ev t"
  by (induction t) auto

section \<open>Files written by the phases\<close>

lemma run_ffmpeg_files:
  "q \<noteq> outp \<Longrightarrow> files (fst (run_ffmpeg e vp ap outp w)) q = files w q"
  by (simp add: run_ffmpeg_def write_output_def log_event_def Let_def
      split: ffmpeg_outcome.splits option.splits)

lemma download_events_set:
  "set (download_events e url cfg p) \<subseteq> {AxiosGet url cfg, CreateWriteStream p, WriterFinish p}"
  by (auto simp add: download_events_def split: sum.splits body_stream.splits write_outcome.splits)

lemma configs_differ: "video_config \<noteq> audio_config"
  by (simp add: video_config_def audio_config_def)

section \<open>The other sample inputs\<close>

lemma silent_paths:
  "videoPath silent_env = videoPath demo_env"
  "audioPath silent_env = audioPath demo_env"
  "outputPath silent_env = outputPath demo_env"
  by (simp_all add: silent_env_def videoPath_def audioPath_def outputPath_def randomId_def)

lemma silent_env_fields:
  "axios_get silent_env = axios_get demo_env"
  "write_stream silent_env = write_stream demo_env"
  "ffmpeg_run silent_env ins opts outp fs = End None"
  "read_error silent_env = read_error demo_env"
  "unlink_error silent_env = unlink_error demo_env"
  "date_now_start silent_env = date_now_start demo_env"
  "date_now_end silent_env = date_now_end demo_env"
  "capture_stack silent_env = capture_stack demo_env"
  "to_hundredths silent_env = to_hundredths demo_env"
  by (simp_all add: silent_env_def)

lemma silent_fetched:
  "fetched silent_env (videoUrl demo_request) video_config (videoPath silent_env)"
  "fetched silent_env (audioUrl demo_request) audio_config (audioPath silent_env)"
  by (simp_all add: fetched_def fetched_body_def silent_env_fields demo_env_fields videoUrl_def
      audioUrl_def property_def demo_request_def)

lemma broken_paths:
  "videoPath broken_env = videoPath demo_env"
  "audioPath broken_env = audioPath demo_env"
  "outputPath broken_env = outputPath demo_env"
  by (simp_all add: broken_env_def videoPath_def audioPath_def outputPath_def randomId_def)

lemma broken_env_fields:
  "axios_get broken_env url cfg =
     (if url = JStr ''https://host/a.mp4'' then Inr (Broken [0, 0] aborted)
      else axios_get demo_env url cfg)"
  "write_stream broken_env = write_stream demo_env"
  "ffmpeg_run broken_env = ffmpeg_run demo_env"
  "read_error broken_env = read_error demo_env"
  "unlink_error broken_env = unlink_error demo_env"
  "date_now_start broken_env = date_now_start demo_env"
  "date_now_end broken_env = date_now_end demo_env"
  "capture_stack broken_env = capture_stack demo_env"
  "to_hundredths broken_env = to_hundredths demo_env"
  by (simp_all add: broken_env_def)

lemma broken_stalled:
  "stalled broken_env (videoUrl demo_request) video_config (videoPath broken_env)"
  by (simp add: stalled_def broken_env_fields demo_env_fields videoUrl_def property_def
      demo_request_def)

lemma after_combine_trace:
  "trace (after_combine e b w) =
     trace w @ download_events e (videoUrl b) video_config (videoPath e)
       @ download_events e (audioUrl b) audio_config (audioPath e)
       @ [FfmpegRun [videoPath e, audioPath e] outputOptions (outputPath e)]"
  by (simp add: after_combine_def combine_def run_ffmpeg_trace after_downloads_def after_video_def
      download_trace)

section \<open>C1: the temporary artifacts after the response\<close>




section \<open>C2: a missing locator\<close>

text \<open>
  C2: when \<^verbatim>\<open>videoUrl\<close> or \<^verbatim>\<open>audioUrl\<close> is missing from the body, the handler answers
  400 with \<^verbatim>\<open>{error: "Missing required fields", required: ["videoUrl", "audioUrl"]}\<close>
  and leaves the world as it was: no file is created and no call is made (no download,
  no subprocess).
\<close>

theorem missing_field_rejected:
  assumes "reqBody ''videoUrl'' = None \<or> reqBody ''audioUrl'' = None"
  shows "merge_handler e reqBody w =
     (w, Some \<lparr>status = 400,
               body = JObj [(''error'', JStr ''Missing required fields''),
                            (''required'', JArr [JStr ''videoUrl'', JStr ''audioUrl''])]\<rparr>)"
proof -
  from assms have "\<not> truthy (videoUrl reqBody) \<or> \<not> truthy (audioUrl reqBody)"
    by (auto simp add: videoUrl_def audioUrl_def property_def)
  then show ?thesis
    by (simp add: merge_handler_invalid missing_fields_response_def)
qed

theorem missing_field_rejected_witness:
  "(demo_request(''audioUrl'' := None)) ''audioUrl'' = None
   \<and> merge_handler demo_env (demo_request(''audioUrl'' := None)) (initial_world Map.empty) =
     (initial_world Map.empty,
      Some \<lparr>status = 400,
            body = JObj [(''error'', JStr ''Missing required fields''),
                         (''required'', JArr [JStr ''videoUrl'', JStr ''audioUrl''])]\<rparr>)"
  using missing_field_rejected [of "demo_request(''audioUrl'' := None)" demo_env
      "initial_world Map.empty"]
  by simp

section \<open>C3: the shapes of the response\<close>

text \<open>
  C3: the response of every request has exactly one of the three shapes, decided
  all-or-nothing, with the 500 shape on any processing failure. On the code this holds
  for every request that is answered: a request that fails validation gets the 400
  shape; a request that passes gets the 200 shape
  \<^verbatim>\<open>{success: true, base64, stats: {inputVideoSize, inputAudioSize, outputSize, processingTime, outputSizeMB}, message}\<close>
  exactly when every phase succeeded and the 500 shape \<^verbatim>\<open>{success: false, error, details}\<close>
  when a phase failed with an error the handler catches. It fails for one processing
  failure: when a download stalls (its stream breaks after the headers) the handler
  listens to the writer only, waits for ever and sends no response at all.
\<close>

theorem response_by_outcome:
  "(if \<not> truthy (videoUrl b) \<or> \<not> truthy (audioUrl b)
    then has_shape validation_shape (snd (merge_handler e b w))
       \<and> \<not> has_shape success_shape (snd (merge_handler e b w))
       \<and> \<not> has_shape failure_shape (snd (merge_handler e b w))
    else if request_stalls e b
    then snd (merge_handler e b w) = None
    else if all_phases_succeed e b w
    then has_shape success_shape (snd (merge_handler e b w))
       \<and> \<not> has_shape failure_shape (snd (merge_handler e b w))
       \<and> \<not> has_shape validation_shape (snd (merge_handler e b w))
    else has_shape failure_shape (snd (merge_handler e b w))
       \<and> \<not> has_shape success_shape (snd (merge_handler e b w))
       \<and> \<not> has_shape validation_shape (snd (merge_handler e b w)))"
proof (cases "\<not> truthy (videoUrl b) \<or> \<not> truthy (audioUrl b)")
  case True
  then show ?thesis
    by (simp add: merge_handler_invalid missing_fields_response_shape)
next
  case False
  then have valid: "truthy (videoUrl b)" "truthy (audioUrl b)"
    by simp_all
  show ?thesis
  proof (cases "request_stalls e b")
    case True
    then have "snd (merge_try e b (date_now_start e) w) = None"
      by (rule merge_try_stalls)
    with True valid show ?thesis
      by (simp add: merge_handler_stalls)
  next
    case settles: False
    show ?thesis
    proof (cases "all_phases_succeed e b w")
      case True
      then obtain r where "snd (merge_try e b (date_now_start e) w) = Some (Inr r)"
        using merge_try_succeeds by blast
      with True settles valid show ?thesis
        by (simp add: merge_handler_settles success_response_shape)
    next
      case False
      then obtain err where "snd (merge_try e b (date_now_start e) w) = Some (Inl err)"
        using merge_try_fails settles by blast
      with False settles valid show ?thesis
        by (simp add: merge_handler_settles error_response_shape)
    qed
  qed
qed

theorem response_by_outcome_witness:
  "truthy (videoUrl demo_request) \<and> truthy (audioUrl demo_request)
   \<and> request_stalls broken_env demo_request
   \<and> \<not> all_phases_succeed broken_env demo_request (initial_world Map.empty)
   \<and> snd (merge_handler broken_env demo_request (initial_world Map.empty)) = None"
proof -
  have s: "request_stalls broken_env demo_request"
    by (simp add: request_stalls_def broken_stalled)
  have n: "\<not> all_phases_succeed broken_env demo_request (initial_world Map.empty)"
    using s stalled_exclusive [OF broken_stalled]
    by (simp add: all_phases_succeed_iff)
  from response_by_outcome [of demo_request broken_env "initial_world Map.empty"] s n
  show ?thesis
    by (simp add: demo_request_valid)
qed

section \<open>C4: a failed download\<close>

text \<open>
  When a download ends with an error the handler catches (the fetch rejects or the
  writer emits \<^verbatim>\<open>'error'\<close>), the response is the 500 response whose \<^verbatim>\<open>error\<close> and
  \<^verbatim>\<open>details\<close> are the message and the stack of that error, and the tool is not invoked.
\<close>

lemma download_error_response:
  assumes "truthy (videoUrl b)" and "truthy (audioUrl b)"
    and "download_error e (videoUrl b) video_config (videoPath e) = Some err
         \<or> (fetched e (videoUrl b) video_config (videoPath e)
            \<and> download_error e (audioUrl b) audio_config (audioPath e) = Some err)"
  shows "snd (merge_handler e b (initial_world fs)) =
       Some \<lparr>status = 500,
             body = JObj [(''success'', JBool False), (''error'', JStr (message err)),
                          (''details'', JStr (stack err))]\<rparr>
     \<and> filter is_ffmpeg_run (trace (fst (merge_handler e b (initial_world fs)))) = []"
proof -
  have nf: "\<not> fetched e (videoUrl b) video_config (videoPath e)
      \<or> \<not> fetched e (audioUrl b) audio_config (audioPath e)"
    using assms(3) download_error_exclusive by blast
  have "snd (merge_try e b (date_now_start e) (initial_world fs)) = Some (Inl err)"
    using assms(3) by (auto simp add: merge_try_video_fails merge_try_audio_fails)
  then have resp: "snd (merge_handler e b (initial_world fs)) = Some (error_response err)"
    by (simp add: merge_handler_settles [OF assms(1,2)])
  obtain reads us where "\<forall>u \<in> set us. is_unlink u"
    and "trace (fst (merge_handler e b (initial_world fs))) =
       download_events e (videoUrl b) video_config (videoPath e) @
         (if fetched e (videoUrl b) video_config (videoPath e)
          then download_events e (audioUrl b) audio_config (audioPath e) @
            (if fetched e (audioUrl b) audio_config (audioPath e)
             then FfmpegRun [videoPath e, audioPath e] outputOptions (outputPath e) # reads
             else [])
          else []) @ us"
    using merge_handler_calls [OF assms(1,2), of e fs] by blast
  with nf have "filter is_ffmpeg_run (trace (fst (merge_handler e b (initial_world fs)))) = []"
    by (auto simp add: download_events_no_ffmpeg unlinks_no_ffmpeg)
  with resp show ?thesis
    by (simp add: error_response_def)
qed

text \<open>
  C4: when the fetch of either stream errors, times out or exceeds its size ceiling, the
  request fails with a download error and the tool is never invoked. The tool is indeed
  never invoked; but when the failure comes after the response headers (the stream
  breaks while the body is piped into the file), the handler, which listens to the
  writer's \<^verbatim>\<open>'finish'\<close> and \<^verbatim>\<open>'error'\<close> only, never answers: no response is sent, and
  no cleanup runs.
\<close>

theorem stalled_download_never_answered:
  assumes "truthy (videoUrl b)" and "truthy (audioUrl b)"
    and "stalled e (videoUrl b) video_config (videoPath e)
         \<or> (fetched e (videoUrl b) video_config (videoPath e)
            \<and> stalled e (audioUrl b) audio_config (audioPath e))"
  shows "snd (merge_handler e b (initial_world fs)) = None
     \<and> filter is_ffmpeg_run (trace (fst (merge_handler e b (initial_world fs)))) = []
     \<and> filter is_unlink (trace (fst (merge_handler e b (initial_world fs)))) = []"
proof -
  have stalls: "request_stalls e b"
    using assms(3) by (simp add: request_stalls_def)
  have nf: "\<not> fetched e (videoUrl b) video_config (videoPath e)
      \<or> \<not> fetched e (audioUrl b) audio_config (audioPath e)"
    using assms(3) stalled_exclusive by blast
  have m: "snd (merge_try e b (date_now_start e) (initial_world fs)) = None"
    using stalls by (rule merge_try_stalls)
  then have h: "merge_handler e b (initial_world fs) =
      (fst (merge_try e b (date_now_start e) (initial_world fs)), None)"
    by (rule merge_handler_stalls [OF assms(1,2)])
  obtain reads where "trace (fst (merge_try e b (date_now_start e) (initial_world fs))) =
       trace (initial_world fs) @ download_events e (videoUrl b) video_config (videoPath e) @
         (if fetched e (videoUrl b) video_config (videoPath e)
          then download_events e (audioUrl b) audio_config (audioPath e) @
            (if fetched e (audioUrl b) audio_config (audioPath e)
             then FfmpegRun [videoPath e, audioPath e] outputOptions (outputPath e) # reads
             else [])
          else [])"
    using merge_try_trace [of e b "date_now_start e" "initial_world fs"] by blast
  with nf h show ?thesis
    by (auto simp add: initial_world_def download_events_no_ffmpeg download_events_no_unlink)
qed

theorem stalled_download_never_answered_witness:
  "truthy (videoUrl demo_request) \<and> truthy (audioUrl demo_request)
   \<and> axios_get broken_env (videoUrl demo_request) video_config = Inr (Broken [0, 0] aborted)
   \<and> stalled broken_env (videoUrl demo_request) video_config (videoPath broken_env)
   \<and> snd (merge_handler broken_env demo_request (initial_world Map.empty)) = None
   \<and> filter is_ffmpeg_run
        (trace (fst (merge_handler broken_env demo_request (initial_world Map.empty)))) = []
   \<and> filter is_unlink
        (trace (fst (merge_handler broken_env demo_request (initial_world Map.empty)))) = []
   \<and> files (fst (merge_handler broken_env demo_request (initial_world Map.empty)))
        (videoPath broken_env) = Some [0, 0]"
proof -
  have g: "axios_get broken_env (videoUrl demo_request) video_config = Inr (Broken [0, 0] aborted)"
    by (simp add: broken_env_fields videoUrl_def property_def demo_request_def)
  have f: "files (fst (merge_handler broken_env demo_request (initial_world Map.empty)))
        (videoPath broken_env) = Some [0, 0]"
    by (simp add: model_defs broken_paths broken_env_fields demo_defs)
  have "stalled broken_env (videoUrl demo_request) video_config (videoPath broken_env)
      \<or> (fetched broken_env (videoUrl demo_request) video_config (videoPath broken_env)
         \<and> stalled broken_env (audioUrl demo_request) audio_config (audioPath broken_env))"
    using broken_stalled by simp
  from stalled_download_never_answered [OF demo_request_valid this, of Map.empty]
    demo_request_valid broken_stalled g f
  show ?thesis by simp
qed

section \<open>C5: the invocation of the tool\<close>

text \<open>
  C5: a request whose two downloads completed invokes the tool exactly once, with the
  video path as first input and the audio path as second, the output path as output,
  and the options \<^verbatim>\<open>-c:v copy\<close> (video copied), \<^verbatim>\<open>-c:a aac\<close> and \<^verbatim>\<open>-b:a 192k\<close> (audio
  re-encoded), \<^verbatim>\<open>-map 0:v:0\<close> and \<^verbatim>\<open>-map 1:a:0\<close> (video of the first input, audio of
  the second), \<^verbatim>\<open>-shortest\<close>, \<^verbatim>\<open>-movflags +faststart\<close> and \<^verbatim>\<open>-y\<close> (overwrite).
\<close>

theorem tool_invoked_once_with_options:
  assumes "truthy (videoUrl b)" and "truthy (audioUrl b)"
    and "fetched e (videoUrl b) video_config (videoPath e)"
    and "fetched e (audioUrl b) audio_config (audioPath e)"
  shows "filter is_ffmpeg_run (trace (fst (merge_handler e b (initial_world fs)))) =
     [FfmpegRun [videoPath e, audioPath e]
        [''-c:v copy'', ''-c:a aac'', ''-b:a 192k'', ''-map 0:v:0'', ''-map 1:a:0'',
         ''-shortest'', ''-movflags +faststart'', ''-y'']
        (outputPath e)]"
proof -
  obtain reads us where "set reads \<subseteq> {ReadFileSync (outputPath e)}"
    and "\<forall>u \<in> set us. is_unlink u"
    and "trace (fst (merge_handler e b (initial_world fs))) =
       download_events e (videoUrl b) video_config (videoPath e) @
       download_events e (audioUrl b) audio_config (audioPath e) @
       FfmpegRun [videoPath e, audioPath e] outputOptions (outputPath e) # reads @ us"
    using merge_handler_calls [OF assms(1,2), of e fs] assms(3,4) by auto
  then show ?thesis
    by (simp add: download_events_no_ffmpeg reads_no_ffmpeg unlinks_no_ffmpeg outputOptions_def)
qed

theorem tool_invoked_once_with_options_witness:
  "truthy (videoUrl demo_request) \<and> truthy (audioUrl demo_request)
   \<and> fetched demo_env (videoUrl demo_request) video_config (videoPath demo_env)
   \<and> fetched demo_env (audioUrl demo_request) audio_config (audioPath demo_env)
   \<and> filter is_ffmpeg_run (trace (fst (merge_handler demo_env demo_request (initial_world Map.empty)))) =
     [FfmpegRun [''/tmp/video_1700000000002_82mvyr.mp4'', ''/tmp/audio_1700000000002_82mvyr.mp3'']
        [''-c:v copy'', ''-c:a aac'', ''-b:a 192k'', ''-map 0:v:0'', ''-map 1:a:0'',
         ''-shortest'', ''-movflags +faststart'', ''-y'']
        ''/tmp/output_1700000000002_82mvyr.mp4'']"
  using tool_invoked_once_with_options [OF demo_request_valid demo_fetched, of Map.empty]
    demo_request_valid demo_fetched
  by (simp add: demo_videoPath demo_audioPath demo_outputPath)

section \<open>C6: the limits of the two downloads\<close>

text \<open>
  C6: the requests to the remote-fetch client are, in this order, the video locator
  with a timeout of 60000 ms and a ceiling of 50 MiB, then (when the video download
  completed) the audio locator with a timeout of 30000 ms and a ceiling of 10 MiB, and
  nothing else; the video's timeout and ceiling are strictly larger than the audio's.
\<close>

theorem download_limits:
  "axios_calls (trace (fst (merge_handler e b (initial_world fs)))) =
     (if truthy (videoUrl b) \<and> truthy (audioUrl b)
      then (videoUrl b, \<lparr>responseType = ''stream'', timeout = 60 * 1000,
                          maxContentLength = 50 * 2 ^ 20\<rparr>) #
           (if fetched e (videoUrl b) video_config (videoPath e)
            then [(audioUrl b, \<lparr>responseType = ''stream'', timeout = 30 * 1000,
                                maxContentLength = 10 * 2 ^ 20\<rparr>)]
            else [])
      else [])
   \<and> timeout audio_config < timeout video_config
   \<and> maxContentLength audio_config < maxContentLength video_config"
proof (cases "truthy (videoUrl b) \<and> truthy (audioUrl b)")
  case False
  then have "merge_handler e b (initial_world fs) = (initial_world fs, Some missing_fields_response)"
    by (simp add: merge_handler_invalid)
  with False show ?thesis
    by (simp add: initial_world_def axios_calls_def map_filter_def video_config_def audio_config_def)
next
  case True
  then obtain reads us where "set reads \<subseteq> {ReadFileSync (outputPath e)}"
    and "\<forall>u \<in> set us. is_unlink u"
    and "trace (fst (merge_handler e b (initial_world fs))) =
       download_events e (videoUrl b) video_config (videoPath e) @
         (if fetched e (videoUrl b) video_config (videoPath e)
          then download_events e (audioUrl b) audio_config (audioPath e) @
            (if fetched e (audioUrl b) audio_config (audioPath e)
             then FfmpegRun [videoPath e, audioPath e] outputOptions (outputPath e) # reads
             else [])
          else []) @ us"
    using merge_handler_calls [of b e fs] by blast
  with True show ?thesis
    by (simp add: axios_calls_append download_events_axios axios_calls_ffmpeg reads_no_axios
        unlinks_no_axios video_config_def audio_config_def)
qed

theorem download_limits_witness:
  "axios_calls (trace (fst (merge_handler demo_env demo_request (initial_world Map.empty)))) =
     [(JStr ''https://host/a.mp4'',
       \<lparr>responseType = ''stream'', timeout = 60000, maxContentLength = 52428800\<rparr>),
      (JStr ''https://host/b.mp3'',
       \<lparr>responseType = ''stream'', timeout = 30000, maxContentLength = 10485760\<rparr>)]
   \<and> timeout audio_config < timeout video_config
   \<and> maxContentLength audio_config < maxContentLength video_config"
  using download_limits [of demo_env demo_request Map.empty]
  by (simp add: demo_request_valid demo_fetched)
    (simp add: videoUrl_def audioUrl_def property_def demo_request_def)

section \<open>C7: the tool reports success and the output is missing\<close>

text \<open>
  C7: when both downloads completed, the tool ended with \<^verbatim>\<open>'end'\<close> and the output path
  does not exist afterwards, the response is the 500 response with the message
  \<^verbatim>\<open>Output file was not created\<close>, not a success, and no file is read (so nothing is
  encoded).
\<close>

theorem missing_output_is_failure:
  assumes "truthy (videoUrl b)" and "truthy (audioUrl b)"
    and "fetched e (videoUrl b) video_config (videoPath e)"
    and "fetched e (audioUrl b) audio_config (audioPath e)"
    and "snd (combine e b (initial_world fs)) = Inr ()"
    and "\<not> existsSync (after_combine e b (initial_world fs)) (outputPath e)"
  shows "snd (merge_handler e b (initial_world fs)) =
       Some \<lparr>status = 500,
             body = JObj [(''success'', JBool False), (''error'', JStr ''Output file was not created''),
                          (''details'', JStr (capture_stack e ''Output file was not created''))]\<rparr>
     \<and> (\<forall>p. ReadFileSync p \<notin> set (trace (fst (merge_handler e b (initial_world fs)))))"
proof -
  obtain vs as where "merge_try e b (date_now_start e) (initial_world fs) =
      (fst (read_output e (date_now_start e) vs as (outputPath e)
              (after_combine e b (initial_world fs))),
       Some (snd (read_output e (date_now_start e) vs as (outputPath e)
              (after_combine e b (initial_world fs)))))"
    using merge_try_combined [OF assms(3,4,5)] by blast
  with assms(6) have m: "merge_try e b (date_now_start e) (initial_world fs) =
      (after_combine e b (initial_world fs), Some (Inl (new_Error e ''Output file was not created'')))"
    by (simp add: read_output_missing)
  then have resp: "snd (merge_handler e b (initial_world fs)) =
      Some (error_response (new_Error e ''Output file was not created''))"
    by (simp add: merge_handler_settles [OF assms(1,2)])
  obtain us where u: "\<forall>u \<in> set us. is_unlink u"
    and "trace (fst (merge_handler e b (initial_world fs))) =
       trace (fst (merge_try e b (date_now_start e) (initial_world fs))) @ us"
    using merge_handler_trace [OF assms(1,2), of e "initial_world fs"] by blast
  with m have t: "trace (fst (merge_handler e b (initial_world fs))) =
       download_events e (videoUrl b) video_config (videoPath e)
       @ download_events e (audioUrl b) audio_config (audioPath e)
       @ [FfmpegRun [videoPath e, audioPath e] outputOptions (outputPath e)] @ us"
    by (simp add: after_combine_trace initial_world_def)
  have "ReadFileSync p \<notin> set (trace (fst (merge_handler e b (initial_world fs))))" for p
  proof
    assume "ReadFileSync p \<in> set (trace (fst (merge_handler e b (initial_world fs))))"
    with t assms(3,4) have "ReadFileSync p \<in> set us"
      by (simp add: download_events_fetched)
    with u have "is_unlink (ReadFileSync p)" by blast
    then show False by simp
  qed
  with resp show ?thesis
    by (simp add: error_response_def new_Error_def)
qed

theorem missing_output_is_failure_witness:
  "truthy (videoUrl demo_request) \<and> truthy (audioUrl demo_request)
   \<and> fetched silent_env (videoUrl demo_request) video_config (videoPath silent_env)
   \<and> fetched silent_env (audioUrl demo_request) audio_config (audioPath silent_env)
   \<and> snd (combine silent_env demo_request (initial_world Map.empty)) = Inr ()
   \<and> \<not> existsSync (after_combine silent_env demo_request (initial_world Map.empty))
          (outputPath silent_env)
   \<and> snd (merge_handler silent_env demo_request (initial_world Map.empty)) =
       Some \<lparr>status = 500,
             body = JObj [(''success'', JBool False), (''error'', JStr ''Output file was not created''),
                          (''details'', JStr ''Error: Output file was not created'')]\<rparr>
   \<and> (\<forall>p. ReadFileSync p \<notin>
          set (trace (fst (merge_handler silent_env demo_request (initial_world Map.empty)))))"
proof -
  have c: "snd (combine silent_env demo_request (initial_world Map.empty)) = Inr ()"
    by (simp add: combine_def run_ffmpeg_def silent_env_fields Let_def)
  have x: "\<not> existsSync (after_combine silent_env demo_request (initial_world Map.empty))
          (outputPath silent_env)"
    using silent_fetched
    by (simp add: after_combine_def combine_def run_ffmpeg_def write_output_def log_event_def
        existsSync_def after_downloads_def after_video_def download_def pipe_to_file_def
        statSync_size_def initial_world_def silent_env_fields demo_env_fields silent_paths
        demo_videoPath demo_audioPath demo_outputPath videoUrl_def audioUrl_def property_def
        demo_request_def Let_def)
  from missing_output_is_failure [OF demo_request_valid silent_fetched c x]
    demo_request_valid silent_fetched c x
  show ?thesis
    by (simp add: silent_env_fields demo_env_fields)
qed

section \<open>C8: the base64 text decodes to the output file\<close>

text \<open>
  C8: in every success response the \<^verbatim>\<open>base64\<close> member is a text whose decoding is
  exactly the content of the output file as the combine phase left it.
\<close>

theorem base64_member_decodes_to_output:
  assumes "snd (merge_handler e b w) = Some r" and "status r = 200"
  shows "\<exists>out s. files (after_combine e b w) (outputPath e) = Some out
     \<and> get_member (body r) ''base64'' = JStr s
     \<and> base64_decode s = Some out"
proof -
  have "\<not> (\<not> truthy (videoUrl b) \<or> \<not> truthy (audioUrl b))"
  proof
    assume "\<not> truthy (videoUrl b) \<or> \<not> truthy (audioUrl b)"
    then have "snd (merge_handler e b w) = Some missing_fields_response"
      by (simp add: merge_handler_invalid)
    with assms show False by (auto simp add: missing_fields_response_def)
  qed
  then have valid: "truthy (videoUrl b)" "truthy (audioUrl b)"
    by simp_all
  have settles: "\<not> request_stalls e b"
  proof
    assume "request_stalls e b"
    then have "snd (merge_try e b (date_now_start e) w) = None"
      by (rule merge_try_stalls)
    with assms(1) valid show False
      by (simp add: merge_handler_stalls)
  qed
  have ok: "all_phases_succeed e b w"
  proof (rule ccontr)
    assume "\<not> all_phases_succeed e b w"
    then obtain err where "snd (merge_try e b (date_now_start e) w) = Some (Inl err)"
      using merge_try_fails settles by blast
    with assms valid show False
      by (auto simp add: merge_handler_settles error_response_def)
  qed
  obtain out x where out: "files (after_combine e b w) (outputPath e) = Some out"
    and x: "snd (merge_try e b (date_now_start e) w) = Some (Inr x)"
    and enc: "base64Video x = base64_encode out"
    using merge_try_succeeds [OF ok] by blast
  have "r = success_response e x"
    using x assms(1) valid by (simp add: merge_handler_settles)
  with enc have "get_member (body r) ''base64'' = JStr (base64_encode out)"
    by (simp add: success_response_def get_member_def)
  with out base64_roundtrip [of out] show ?thesis by blast
qed

theorem base64_member_decodes_to_output_witness:
  "\<exists>r. snd (merge_handler demo_env demo_request (initial_world Map.empty)) = Some r
     \<and> status r = 200
     \<and> (\<exists>out s. files (after_combine demo_env demo_request (initial_world Map.empty))
                    (outputPath demo_env) = Some out
          \<and> get_member (body r) ''base64'' = JStr s
          \<and> base64_decode s = Some out)"
proof -
  have "map_option status (snd (merge_handler demo_env demo_request (initial_world Map.empty)))
      = Some 200"
    by (simp add: model_defs demo_defs)
  then obtain r where r: "snd (merge_handler demo_env demo_request (initial_world Map.empty)) = Some r"
    and s: "status r = 200"
    by auto
  from r s base64_member_decodes_to_output [OF r s] show ?thesis by blast
qed

section \<open>C9: the three temporary paths\<close>

text \<open>
  C9: the video, audio and output paths of a request are pairwise distinct (same
  timestamp and random suffix, different prefixes), so that no phase overwrites the
  artifact of another: after the combine phase the video file still holds the bytes of
  the video download and the audio file those of the audio download.
\<close>

theorem temp_paths_pairwise_distinct:
  "distinct [videoPath e, audioPath e, outputPath e]
   \<and> (axios_get e (videoUrl b) video_config = Inr (Complete vdata)
        \<and> fetched e (videoUrl b) video_config (videoPath e)
        \<and> axios_get e (audioUrl b) audio_config = Inr (Complete adata)
        \<and> fetched e (audioUrl b) audio_config (audioPath e) \<longrightarrow>
      files (after_combine e b w) (videoPath e) = Some vdata
        \<and> files (after_combine e b w) (audioPath e) = Some adata)"
proof (intro conjI impI)
  show "distinct [videoPath e, audioPath e, outputPath e]"
    by (simp add: temp_paths_distinct)
next
  assume h: "axios_get e (videoUrl b) video_config = Inr (Complete vdata)
        \<and> fetched e (videoUrl b) video_config (videoPath e)
        \<and> axios_get e (audioUrl b) audio_config = Inr (Complete adata)
        \<and> fetched e (audioUrl b) audio_config (audioPath e)"
  then have "fetched_body e (videoUrl b) video_config (videoPath e) = Some vdata"
    and "fetched_body e (audioUrl b) audio_config (audioPath e) = Some adata"
    by (auto elim!: fetched_bodyE)
  then have "files (after_downloads e b w) = (files w)(videoPath e \<mapsto> vdata, audioPath e \<mapsto> adata)"
    by (rule after_downloads_files)
  then show "files (after_combine e b w) (videoPath e) = Some vdata"
    and "files (after_combine e b w) (audioPath e) = Some adata"
    by (simp_all add: after_combine_def combine_def run_ffmpeg_files temp_paths_distinct)
qed

theorem temp_paths_pairwise_distinct_witness:
  "distinct [''/tmp/video_1700000000002_82mvyr.mp4'', ''/tmp/audio_1700000000002_82mvyr.mp3'',
             ''/tmp/output_1700000000002_82mvyr.mp4'']
   \<and> axios_get demo_env (videoUrl demo_request) video_config = Inr (Complete [0, 0, 1, 186])
   \<and> fetched demo_env (videoUrl demo_request) video_config (videoPath demo_env)
   \<and> axios_get demo_env (audioUrl demo_request) audio_config = Inr (Complete [73, 68, 51])
   \<and> fetched demo_env (audioUrl demo_request) audio_config (audioPath demo_env)
   \<and> files (after_combine demo_env demo_request (initial_world Map.empty)) (videoPath demo_env)
       = Some [0, 0, 1, 186]
   \<and> files (after_combine demo_env demo_request (initial_world Map.empty)) (audioPath demo_env)
       = Some [73, 68, 51]"
proof -
  have v: "axios_get demo_env (videoUrl demo_request) video_config = Inr (Complete [0, 0, 1, 186])"
    by (simp add: demo_env_fields videoUrl_def property_def demo_request_def)
  have a: "axios_get demo_env (audioUrl demo_request) audio_config = Inr (Complete [73, 68, 51])"
    by (simp add: demo_env_fields audioUrl_def property_def demo_request_def)
  have "distinct [videoPath demo_env, audioPath demo_env, outputPath demo_env]"
    using temp_paths_pairwise_distinct [of demo_env demo_request "[0, 0, 1, 186]" "[73, 68, 51]"
        "initial_world Map.empty"]
    by blast
  then have d: "distinct [''/tmp/video_1700000000002_82mvyr.mp4'',
      ''/tmp/audio_1700000000002_82mvyr.mp3'', ''/tmp/output_1700000000002_82mvyr.mp4'']"
    by (simp only: demo_videoPath demo_audioPath demo_outputPath)
  from temp_paths_pairwise_distinct [of demo_env demo_request "[0, 0, 1, 186]" "[73, 68, 51]"
      "initial_world Map.empty"] v a demo_fetched d
  show ?thesis by blast
qed

section \<open>C10: the order of the phases\<close>

text \<open>
  C10: in the calls of a request that passed validation, the audio fetch comes only
  after the video writer has finished, and a run of the tool comes only after both
  writers have finished.
\<close>

theorem phases_sequential:
  assumes "truthy (videoUrl b)" and "truthy (audioUrl b)"
  shows "precedes (WriterFinish (videoPath e)) (AxiosGet (audioUrl b) audio_config)
           (trace (fst (merge_handler e b (initial_world fs))))
     \<and> precedes (WriterFinish (videoPath e)) (FfmpegRun ins opts outp)
           (trace (fst (merge_handler e b (initial_world fs))))
     \<and> precedes (WriterFinish (audioPath e)) (FfmpegRun ins opts outp)
           (trace (fst (merge_handler e b (initial_world fs))))"
proof -
  let ?T = "trace (fst (merge_handler e b (initial_world fs)))"
  let ?DV = "download_events e (videoUrl b) video_config (videoPath e)"
  let ?DA = "download_events e (audioUrl b) audio_config (audioPath e)"
  let ?F = "FfmpegRun [videoPath e, audioPath e] outputOptions (outputPath e)"
  obtain reads us where r: "set reads \<subseteq> {ReadFileSync (outputPath e)}"
    and u: "\<forall>u \<in> set us. is_unlink u"
    and t: "?T = ?DV @
         (if fetched e (videoUrl b) video_config (videoPath e)
          then ?DA @ (if fetched e (audioUrl b) audio_config (audioPath e) then ?F # reads else [])
          else []) @ us"
    using merge_handler_calls [OF assms, of e fs] by blast
  have not_us: "ev \<notin> set us" if "\<not> is_unlink ev" for ev
    using u that by blast
  have dv: "set ?DV \<subseteq> {AxiosGet (videoUrl b) video_config, CreateWriteStream (videoPath e),
      WriterFinish (videoPath e)}"
    by (rule download_events_set)
  have da: "set ?DA \<subseteq> {AxiosGet (audioUrl b) audio_config, CreateWriteStream (audioPath e),
      WriterFinish (audioPath e)}"
    by (rule download_events_set)
  show ?thesis
  proof (cases "fetched e (videoUrl b) video_config (videoPath e)")
    case False
    with t have "?T = ?DV @ us" by simp
    moreover have "AxiosGet (audioUrl b) audio_config \<notin> set ?DV"
      using dv configs_differ by auto
    moreover have "FfmpegRun ins opts outp \<notin> set ?DV"
      using dv by auto
    ultimately have "AxiosGet (audioUrl b) audio_config \<notin> set ?T"
      and "FfmpegRun ins opts outp \<notin> set ?T"
      using not_us by simp_all
    then show ?thesis by (simp add: precedes_absent)
  next
    case v: True
    then have DV: "?DV = [AxiosGet (videoUrl b) video_config, CreateWriteStream (videoPath e),
        WriterFinish (videoPath e)]"
      by (rule download_events_fetched)
    have first: "precedes (WriterFinish (videoPath e)) ev ?T"
      if "ev \<noteq> AxiosGet (videoUrl b) video_config" and "ev \<noteq> CreateWriteStream (videoPath e)"
      for ev
      using that t v DV by simp
    have 1: "precedes (WriterFinish (videoPath e)) (AxiosGet (audioUrl b) audio_config) ?T"
      using configs_differ by (intro first) simp_all
    have 2: "precedes (WriterFinish (videoPath e)) (FfmpegRun ins opts outp) ?T"
      by (intro first) simp_all
    show ?thesis
    proof (cases "fetched e (audioUrl b) audio_config (audioPath e)")
      case False
      with t v have "?T = ?DV @ ?DA @ us" by simp
      moreover have "FfmpegRun ins opts outp \<notin> set ?DV" "FfmpegRun ins opts outp \<notin> set ?DA"
        using dv da by auto
      ultimately have "FfmpegRun ins opts outp \<notin> set ?T"
        using not_us by simp
      with 1 2 show ?thesis by (simp add: precedes_absent)
    next
      case True
      then have "?DA = [AxiosGet (audioUrl b) audio_config, CreateWriteStream (audioPath e),
          WriterFinish (audioPath e)]"
        by (rule download_events_fetched)
      with t v True DV have "precedes (WriterFinish (audioPath e)) (FfmpegRun ins opts outp) ?T"
        by (simp add: temp_paths_distinct)
      with 1 2 show ?thesis by simp
    qed
  qed
qed

theorem phases_sequential_witness:
  "truthy (videoUrl demo_request) \<and> truthy (audioUrl demo_request)
   \<and> AxiosGet (audioUrl demo_request) audio_config
        \<in> set (trace (fst (merge_handler demo_env demo_request (initial_world Map.empty))))
   \<and> FfmpegRun [videoPath demo_env, audioPath demo_env] outputOptions (outputPath demo_env)
        \<in> set (trace (fst (merge_handler demo_env demo_request (initial_world Map.empty))))
   \<and> precedes (WriterFinish (videoPath demo_env)) (AxiosGet (audioUrl demo_request) audio_config)
        (trace (fst (merge_handler demo_env demo_request (initial_world Map.empty))))
   \<and> precedes (WriterFinish (videoPath demo_env))
        (FfmpegRun [videoPath demo_env, audioPath demo_env] outputOptions (outputPath demo_env))
        (trace (fst (merge_handler demo_env demo_request (initial_world Map.empty))))
   \<and> precedes (WriterFinish (audioPath demo_env))
        (FfmpegRun [videoPath demo_env, audioPath demo_env] outputOptions (outputPath demo_env))
        (trace (fst (merge_handler demo_env demo_request (initial_world Map.empty))))"
proof -
  have t: "trace (fst (merge_handler demo_env demo_request (initial_world Map.empty))) =
     [AxiosGet (videoUrl demo_request) video_config,
      CreateWriteStream (videoPath demo_env),
      WriterFinish (videoPath demo_env),
      AxiosGet (audioUrl demo_request) audio_config,
      CreateWriteStream (audioPath demo_env),
      WriterFinish (audioPath demo_env),
      FfmpegRun [videoPath demo_env, audioPath demo_env] outputOptions (outputPath demo_env),
      ReadFileSync (outputPath demo_env),
      UnlinkSync (videoPath demo_env),
      UnlinkSync (audioPath demo_env),
      UnlinkSync (outputPath demo_env)]"
    by (simp add: model_defs demo_defs)
  have m: "AxiosGet (audioUrl demo_request) audio_config
        \<in> set (trace (fst (merge_handler demo_env demo_request (initial_world Map.empty))))"
    "FfmpegRun [videoPath demo_env, audioPath demo_env] outputOptions (outputPath demo_env)
        \<in> set (trace (fst (merge_handler demo_env demo_request (initial_world Map.empty))))"
    by (simp_all only: t) simp_all
  from phases_sequential [OF demo_request_valid, where e = demo_env and fs = Map.empty
      and ins = "[videoPath demo_env, audioPath demo_env]" and opts = outputOptions
      and outp = "outputPath demo_env"]
    demo_request_valid m
  show ?thesis by blast
qed

end
